theory Spec2Isabelle
  imports Main "HOL-Library.AList"
begin

section \<open>Data model (src/src/app.py, lines 34-45)\<close>

text \<open>
  The two SQLModel tables. A stored row always carries its primary key (the column is
  \<open>INTEGER PRIMARY KEY\<close>; the \<open>Optional[int]\<close> of the class is \<open>None\<close> only before
  the row is flushed), so the key of a stored row is an \<open>int\<close>. The field \<open>id\<close> of the
  two classes is written \<open>a_id\<close> and \<open>p_id\<close>, since a record field is a global constant.
\<close>

record Activity =
  a_id :: int
  name :: string
  description :: string
  schedule :: string
  max_participants :: int

record Participant =
  p_id :: int
  email :: string
  activity_id :: int

text \<open>
  The database behind \<open>engine\<close>, after \<open>create_db_and_tables\<close>: each table is the list
  of its rows in scan order (ascending rowid), the order in which an unordered
  \<open>select\<close> returns them and of which \<open>.first()\<close> takes the head.
\<close>

record store =
  activity_tbl :: "Activity list"
  participant_tbl :: "Participant list"

definition empty_store :: store where
  "empty_store = \<lparr>activity_tbl = [], participant_tbl = []\<rparr>"

text \<open>\<open>raise HTTPException(status_code=..., detail=...)\<close> as a value.\<close>

datatype HTTPException = HTTPException (status_code: int) (detail: string)

text \<open>
  The inner dictionary of the legacy shape, with the keys \<open>"description"\<close>,
  \<open>"schedule"\<close>, \<open>"max_participants"\<close> and \<open>"participants"\<close>. Both the seed table
  \<open>initial\<close> and the answer of \<open>get_activities\<close> use it.
\<close>

record activity_info =
  info_description :: string
  info_schedule :: string
  info_max_participants :: int
  info_participants :: "string list"

section \<open>Session primitives\<close>

text \<open>
  The key a flushed row receives: one more than the largest key of the table, 1 in an
  empty table (SQLite rowid allocation without AUTOINCREMENT; keys are unbounded here).
\<close>

definition next_id :: "int list \<Rightarrow> int" where
  "next_id ids = (case ids of [] \<Rightarrow> 1 | x # xs \<Rightarrow> fold max xs x + 1)"

text \<open>\<open>session.add(Activity(...)); session.commit(); session.refresh(act)\<close>: the
  stored row, with its key, and the new store.\<close>

definition add_activity ::
  "string \<Rightarrow> string \<Rightarrow> string \<Rightarrow> int \<Rightarrow> store \<Rightarrow> Activity \<times> store" where
  "add_activity n d sch m s =
     (let act = \<lparr>a_id = next_id (map a_id (activity_tbl s)), name = n, description = d,
                  schedule = sch, max_participants = m\<rparr>
      in (act, s\<lparr>activity_tbl := activity_tbl s @ [act]\<rparr>))"

text \<open>\<open>session.add(Participant(email=..., activity_id=...))\<close> followed by the commit
  that flushes it.\<close>

definition add_participant :: "string \<Rightarrow> int \<Rightarrow> store \<Rightarrow> store" where
  "add_participant e aid s =
     s\<lparr>participant_tbl := participant_tbl s @
        [\<lparr>p_id = next_id (map p_id (participant_tbl s)), email = e, activity_id = aid\<rparr>]\<rparr>"

text \<open>\<open>session.exec(select(Activity).where(Activity.name == activity_name)).first()\<close>\<close>

definition select_activity_by_name :: "store \<Rightarrow> string \<Rightarrow> Activity option" where
  "select_activity_by_name s n = find (\<lambda>a. name a = n) (activity_tbl s)"

text \<open>\<open>session.exec(select(Participant).where(Participant.activity_id == act.id)).all()\<close>\<close>

definition select_participants_of :: "store \<Rightarrow> int \<Rightarrow> Participant list" where
  "select_participants_of s aid = filter (\<lambda>p. activity_id p = aid) (participant_tbl s)"

text \<open>\<open>session.exec(select(Participant).where(Participant.activity_id == act.id,
  Participant.email == email)).first()\<close>\<close>

definition select_participant :: "store \<Rightarrow> int \<Rightarrow> string \<Rightarrow> Participant option" where
  "select_participant s aid e =
     find (\<lambda>p. activity_id p = aid \<and> email p = e) (participant_tbl s)"

text \<open>\<open>session.delete(participant); session.commit()\<close>: the row is deleted by its
  primary key.\<close>

definition delete_participant :: "Participant \<Rightarrow> store \<Rightarrow> store" where
  "delete_participant p s =
     s\<lparr>participant_tbl := filter (\<lambda>q. p_id q \<noteq> p_id p) (participant_tbl s)\<rparr>"

section \<open>Seeding (lines 56-131)\<close>

text \<open>The dictionary \<open>initial\<close>, in its insertion order.\<close>

definition initial :: "(string \<times> activity_info) list" where
  "initial =
    [(''Chess Club'',
      \<lparr>info_description = ''Learn strategies and compete in chess tournaments'',
       info_schedule = ''Fridays, 3:30 PM - 5:00 PM'',
       info_max_participants = 12,
       info_participants = [''michael@mergington.edu'', ''daniel@mergington.edu'']\<rparr>),
     (''Programming Class'',
      \<lparr>info_description = ''Learn programming fundamentals and build software projects'',
       info_schedule = ''Tuesdays and Thursdays, 3:30 PM - 4:30 PM'',
       info_max_participants = 20,
       info_participants = [''emma@mergington.edu'', ''sophia@mergington.edu'']\<rparr>),
     (''Gym Class'',
      \<lparr>info_description = ''Physical education and sports activities'',
       info_schedule = ''Mondays, Wednesdays, Fridays, 2:00 PM - 3:00 PM'',
       info_max_participants = 30,
       info_participants = [''john@mergington.edu'', ''olivia@mergington.edu'']\<rparr>),
     (''Soccer Team'',
      \<lparr>info_description = ''Join the school soccer team and compete in matches'',
       info_schedule = ''Tuesdays and Thursdays, 4:00 PM - 5:30 PM'',
       info_max_participants = 22,
       info_participants = [''liam@mergington.edu'', ''noah@mergington.edu'']\<rparr>),
     (''Basketball Team'',
      \<lparr>info_description = ''Practice and play basketball with the school team'',
       info_schedule = ''Wednesdays and Fridays, 3:30 PM - 5:00 PM'',
       info_max_participants = 15,
       info_participants = [''ava@mergington.edu'', ''mia@mergington.edu'']\<rparr>),
     (''Art Club'',
      \<lparr>info_description = ''Explore your creativity through painting and drawing'',
       info_schedule = ''Thursdays, 3:30 PM - 5:00 PM'',
       info_max_participants = 15,
       info_participants = [''amelia@mergington.edu'', ''harper@mergington.edu'']\<rparr>),
     (''Drama Club'',
      \<lparr>info_description = ''Act, direct, and produce plays and performances'',
       info_schedule = ''Mondays and Wednesdays, 4:00 PM - 5:30 PM'',
       info_max_participants = 20,
       info_participants = [''ella@mergington.edu'', ''scarlett@mergington.edu'']\<rparr>),
     (''Math Club'',
      \<lparr>info_description = ''Solve challenging problems and participate in math competitions'',
       info_schedule = ''Tuesdays, 3:30 PM - 4:30 PM'',
       info_max_participants = 10,
       info_participants = [''james@mergington.edu'', ''benjamin@mergington.edu'']\<rparr>),
     (''Debate Team'',
      \<lparr>info_description = ''Develop public speaking and argumentation skills'',
       info_schedule = ''Fridays, 4:00 PM - 5:30 PM'',
       info_max_participants = 12,
       info_participants = [''charlotte@mergington.edu'', ''henry@mergington.edu'']\<rparr>)]"

text \<open>
  The loop \<open>for name, data in initial.items()\<close>. The participants added after the
  refresh are pending until the next \<open>session.commit()\<close> (that of the next round, or the
  last line); a flush inserts the activity before the participants that wait, each
  group in the order it was added, so the rows and their keys are those of inserting
  every object where it is added.
\<close>

fun seed_loop :: "(string \<times> activity_info) list \<Rightarrow> store \<Rightarrow> store" where
  "seed_loop [] s = s"
| "seed_loop ((n, d) # rest) s =
     (case add_activity n (info_description d) (info_schedule d) (info_max_participants d) s of
        (act, s1) \<Rightarrow>
          seed_loop rest
            (fold (\<lambda>e st. add_participant e (a_id act) st) (info_participants d) s1))"

text \<open>\<open>existing = session.exec(select(Activity)).first(); if existing: return\<close>\<close>

definition seed_initial_data :: "store \<Rightarrow> store" where
  "seed_initial_data s =
     (case activity_tbl s of
        [] \<Rightarrow> seed_loop initial s
      | existing # _ \<Rightarrow> s)"

section \<open>The endpoints (lines 144-197)\<close>

text \<open>
  \<open>get_activities\<close>: the answer is a Python dictionary, which keeps its keys in
  insertion order and overwrites the value of a key it already holds in place; that
  is \<^const>\<open>AList.update\<close> on an association list.
\<close>

definition info_of :: "store \<Rightarrow> Activity \<Rightarrow> activity_info" where
  "info_of s act =
     \<lparr>info_description = description act,
      info_schedule = schedule act,
      info_max_participants = max_participants act,
      info_participants = map email (select_participants_of s (a_id act))\<rparr>"

definition get_activities :: "store \<Rightarrow> (string \<times> activity_info) list" where
  "get_activities s =
     fold (\<lambda>act result. AList.update (name act) (info_of s act) result) (activity_tbl s) []"

text \<open>
  \<open>signup_for_activity\<close> and \<open>unregister_from_activity\<close> return the response (the
  exception raised, or the text of \<open>"message"\<close>) together with the store the request
  leaves behind. A branch that raises has neither added nor committed anything.
\<close>

definition signup_for_activity ::
  "store \<Rightarrow> string \<Rightarrow> string \<Rightarrow> (HTTPException + string) \<times> store" where
  "signup_for_activity s activity_name e =
     (case select_activity_by_name s activity_name of
        None \<Rightarrow> (Inl (HTTPException 404 ''Activity not found''), s)
      | Some act \<Rightarrow>
          (let current = select_participants_of s (a_id act) in
           if list_ex (\<lambda>p. email p = e) current
           then (Inl (HTTPException 400 ''Student is already signed up''), s)
           else if int (length current) \<ge> max_participants act
           then (Inl (HTTPException 400 ''Activity is full''), s)
           else (Inr (''Signed up '' @ e @ '' for '' @ activity_name),
                 add_participant e (a_id act) s)))"

definition unregister_from_activity ::
  "store \<Rightarrow> string \<Rightarrow> string \<Rightarrow> (HTTPException + string) \<times> store" where
  "unregister_from_activity s activity_name e =
     (case select_activity_by_name s activity_name of
        None \<Rightarrow> (Inl (HTTPException 404 ''Activity not found''), s)
      | Some act \<Rightarrow>
          (case select_participant s (a_id act) e of
             None \<Rightarrow> (Inl (HTTPException 400 ''Student is not signed up for this activity''), s)
           | Some participant \<Rightarrow>
               (Inr (''Unregistered '' @ e @ '' from '' @ activity_name),
                delete_participant participant s)))"

section \<open>Schema constraints and the invariants of the data model\<close>

text \<open>
  What the schema itself declares: \<open>id\<close> is the primary key of both tables, and
  \<open>Participant.activity_id\<close> is a foreign key to \<open>activity.id\<close>. Nothing makes
  \<open>Activity.name\<close> unique (\<open>Field(index=True)\<close> is an index, not a constraint).
\<close>

definition wf_store :: "store \<Rightarrow> bool" where
  "wf_store s \<longleftrightarrow>
     distinct (map a_id (activity_tbl s)) \<and>
     distinct (map p_id (participant_tbl s)) \<and>
     list_all (\<lambda>p. activity_id p \<in> set (map a_id (activity_tbl s))) (participant_tbl s)"

text \<open>No activity has more participant rows than its \<open>max_participants\<close>.\<close>

definition capacity_ok :: "store \<Rightarrow> bool" where
  "capacity_ok s \<longleftrightarrow>
     list_all (\<lambda>a. int (length (select_participants_of s (a_id a))) \<le> max_participants a)
       (activity_tbl s)"

text \<open>No two participant rows share \<open>(activity_id, email)\<close>.\<close>

definition unique_signups :: "store \<Rightarrow> bool" where
  "unique_signups s \<longleftrightarrow>
     distinct (map (\<lambda>p. (activity_id p, email p)) (participant_tbl s))"

section \<open>Example stores\<close>

text \<open>A store with a full activity (\<open>Duo\<close>) and one with a free place (\<open>Solo\<close>).\<close>

definition demo_store :: store where
  "demo_store =
     \<lparr>activity_tbl =
        [\<lparr>a_id = 1, name = ''Duo'', description = ''Pair work'', schedule = ''Mondays'',
          max_participants = 2\<rparr>,
         \<lparr>a_id = 2, name = ''Solo'', description = ''Single seat'', schedule = ''Tuesdays'',
          max_participants = 1\<rparr>],
      participant_tbl =
        [\<lparr>p_id = 1, email = ''a@mergington.edu'', activity_id = 1\<rparr>,
         \<lparr>p_id = 2, email = ''b@mergington.edu'', activity_id = 1\<rparr>]\<rparr>"

text \<open>A store over capacity: \<open>Duo\<close> holds two participants and its capacity is 1 (the
  state two racing signups leave behind, or a capacity lowered from outside).\<close>

definition over_store :: store where
  "over_store =
     \<lparr>activity_tbl =
        [\<lparr>a_id = 1, name = ''Duo'', description = ''Pair work'', schedule = ''Mondays'',
          max_participants = 1\<rparr>],
      participant_tbl =
        [\<lparr>p_id = 1, email = ''a@mergington.edu'', activity_id = 1\<rparr>,
         \<lparr>p_id = 2, email = ''b@mergington.edu'', activity_id = 1\<rparr>]\<rparr>"

text \<open>A store the schema admits in which two activity rows share a name; one student
  is enrolled in the first of them, another in the second.\<close>

definition twin_store :: store where
  "twin_store =
     \<lparr>activity_tbl =
        [\<lparr>a_id = 1, name = ''Chess Club'', description = ''Morning group'',
          schedule = ''Mondays'', max_participants = 2\<rparr>,
         \<lparr>a_id = 2, name = ''Chess Club'', description = ''Evening group'',
          schedule = ''Fridays'', max_participants = 5\<rparr>],
      participant_tbl =
        [\<lparr>p_id = 1, email = ''y@mergington.edu'', activity_id = 1\<rparr>,
         \<lparr>p_id = 2, email = ''x@mergington.edu'', activity_id = 2\<rparr>]\<rparr>"

section \<open>Reachable stores\<close>

text \<open>
  The stores the program itself can produce: the module seeds the fresh database when
  it is loaded; after that come signups, unregistrations and further loads of the
  module.
\<close>

inductive reachable :: "store \<Rightarrow> bool" where
  start: "reachable (seed_initial_data empty_store)"
| signup: "reachable s \<Longrightarrow> reachable (snd (signup_for_activity s n e))"
| unregister: "reachable s \<Longrightarrow> reachable (snd (unregister_from_activity s n e))"
| restart: "reachable s \<Longrightarrow> reachable (seed_initial_data s)"

section \<open>Auxiliary facts\<close>

lemma next_id_fresh: "x \<in> set ids \<Longrightarrow> x < next_id ids"
  by (cases ids) (auto simp add: next_id_def Max.set_eq_fold[symmetric] intro: le_less_trans)

lemma next_id_notin: "next_id ids \<notin> set ids"
  using next_id_fresh[of "next_id ids" ids] by auto

lemma next_id_map_neq: "x \<in> set xs \<Longrightarrow> next_id (map f xs) \<noteq> f x"
  using next_id_fresh[of "f x" "map f xs"] by auto

lemma select_activity_None:
  "select_activity_by_name s n = None \<longleftrightarrow> (\<forall>a\<in>set (activity_tbl s). name a \<noteq> n)"
  by (auto simp: select_activity_by_name_def find_None_iff)

lemma select_activity_SomeD:
  "select_activity_by_name s n = Some act \<Longrightarrow> act \<in> set (activity_tbl s) \<and> name act = n"
  by (auto simp: select_activity_by_name_def find_Some_iff)

lemma select_participant_None:
  "select_participant s aid e = None \<longleftrightarrow>
     (\<forall>p\<in>set (participant_tbl s). \<not> (activity_id p = aid \<and> email p = e))"
  by (auto simp: select_participant_def find_None_iff)

lemma select_participant_SomeD:
  "select_participant s aid e = Some p \<Longrightarrow>
     p \<in> set (participant_tbl s) \<and> activity_id p = aid \<and> email p = e"
  by (auto simp: select_participant_def find_Some_iff)

lemma filter_pk_remove1:
  "distinct (map f xs) \<Longrightarrow> p \<in> set xs \<Longrightarrow> filter (\<lambda>q. f q \<noteq> f p) xs = remove1 p xs"
proof (induction xs)
  case Nil
  then show ?case by simp
next
  case (Cons x xs)
  show ?case
  proof (cases "x = p")
    case True
    with Cons.prems have "f p \<notin> f ` set xs" by simp
    then have "\<forall>q\<in>set xs. f q \<noteq> f p" by (metis imageI)
    then have "filter (\<lambda>q. f q \<noteq> f p) xs = xs" by (simp add: filter_id_conv)
    with True show ?thesis by simp
  next
    case False
    with Cons.prems have "f x \<noteq> f p" by auto
    with False Cons show ?thesis by simp
  qed
qed

lemma wf_add_participant:
  "wf_store s \<Longrightarrow> aid \<in> set (map a_id (activity_tbl s)) \<Longrightarrow> wf_store (add_participant e aid s)"
  by (auto simp: wf_store_def add_participant_def list_all_iff dest: next_id_map_neq)

lemma wf_delete_participant: "wf_store s \<Longrightarrow> wf_store (delete_participant p s)"
  by (auto simp: wf_store_def delete_participant_def list_all_iff distinct_map_filter)

lemma wf_add_activity:
  "wf_store s \<Longrightarrow> add_activity n d sch m s = (act, s') \<Longrightarrow>
     wf_store s' \<and> a_id act \<in> set (map a_id (activity_tbl s'))"
  by (auto simp: wf_store_def add_activity_def Let_def list_all_iff dest: next_id_map_neq)

lemma activity_tbl_add_participant [simp]:
  "activity_tbl (add_participant e aid s) = activity_tbl s"
  by (simp add: add_participant_def)

lemma activity_tbl_fold_add [simp]:
  "activity_tbl (fold (\<lambda>e st. add_participant e aid st) es s) = activity_tbl s"
  by (induction es arbitrary: s) simp_all

lemma wf_fold_add_participant:
  "wf_store s \<Longrightarrow> aid \<in> set (map a_id (activity_tbl s)) \<Longrightarrow>
     wf_store (fold (\<lambda>e st. add_participant e aid st) es s)"
  by (induction es arbitrary: s) (simp_all add: wf_add_participant)

lemma wf_seed_loop: "wf_store s \<Longrightarrow> wf_store (seed_loop xs s)"
proof (induction xs s rule: seed_loop.induct)
  case (1 s)
  then show ?case by simp
next
  case (2 n d rest s)
  obtain act s1 where a: "add_activity n (info_description d) (info_schedule d) (info_max_participants d) s = (act, s1)"
    by (cases "add_activity n (info_description d) (info_schedule d) (info_max_participants d) s")
  from wf_add_activity[OF "2.prems" a] have "wf_store s1" "a_id act \<in> set (map a_id (activity_tbl s1))"
    by simp_all
  then have "wf_store (fold (\<lambda>e st. add_participant e (a_id act) st) (info_participants d) s1)"
    by (rule wf_fold_add_participant)
  from "2.IH"[OF a[symmetric] this] a show ?case by simp
qed

lemma wf_seed_initial_data: "wf_store s \<Longrightarrow> wf_store (seed_initial_data s)"
  by (cases "activity_tbl s") (simp_all add: seed_initial_data_def wf_seed_loop)

lemma wf_signup: "wf_store s \<Longrightarrow> wf_store (snd (signup_for_activity s n e))"
  by (auto simp: signup_for_activity_def Let_def split: option.splits
      dest!: select_activity_SomeD intro!: wf_add_participant)

lemma wf_unregister: "wf_store s \<Longrightarrow> wf_store (snd (unregister_from_activity s n e))"
  by (auto simp: unregister_from_activity_def split: option.splits intro: wf_delete_participant)

lemma wf_empty_activities:
  "wf_store s \<Longrightarrow> activity_tbl s = [] \<Longrightarrow> s = empty_store"
  by (cases s) (auto simp: wf_store_def empty_store_def list_all_iff)



subsection \<open>The seeded store\<close>

lemma next_id_Nil: "next_id [] = 1"
  by (simp add: next_id_def)

lemma next_id_Cons: "next_id (x # xs) = fold max xs x + 1"
  by (simp add: next_id_def)

lemma add_activity_lit:
  "add_activity n d sch m \<lparr>activity_tbl = as, participant_tbl = ps\<rparr> =
     (\<lparr>a_id = next_id (map a_id as), name = n, description = d, schedule = sch,
        max_participants = m\<rparr>,
      \<lparr>activity_tbl = as @ [\<lparr>a_id = next_id (map a_id as), name = n, description = d,
          schedule = sch, max_participants = m\<rparr>], participant_tbl = ps\<rparr>)"
  by (simp add: add_activity_def Let_def)

lemma add_participant_lit:
  "add_participant e aid \<lparr>activity_tbl = as, participant_tbl = ps\<rparr> =
     \<lparr>activity_tbl = as,
      participant_tbl = ps @ [\<lparr>p_id = next_id (map p_id ps), email = e, activity_id = aid\<rparr>]\<rparr>"
  by (simp add: add_participant_def)

lemma seed_loop_lit:
  "seed_loop ((n, d) # rest) \<lparr>activity_tbl = as, participant_tbl = ps\<rparr> =
     seed_loop rest
       (fold (\<lambda>e st. add_participant e (next_id (map a_id as)) st) (info_participants d)
          \<lparr>activity_tbl = as @ [\<lparr>a_id = next_id (map a_id as), name = n,
             description = info_description d, schedule = info_schedule d,
             max_participants = info_max_participants d\<rparr>], participant_tbl = ps\<rparr>)"
  by (simp add: add_activity_lit)

lemma seeded_store_eq:
  "seed_initial_data empty_store =
    \<lparr>activity_tbl =
      [\<lparr>a_id = 1, name = ''Chess Club'',
        description = ''Learn strategies and compete in chess tournaments'',
        schedule = ''Fridays, 3:30 PM - 5:00 PM'', max_participants = 12\<rparr>,
       \<lparr>a_id = 2, name = ''Programming Class'',
        description = ''Learn programming fundamentals and build software projects'',
        schedule = ''Tuesdays and Thursdays, 3:30 PM - 4:30 PM'', max_participants = 20\<rparr>,
       \<lparr>a_id = 3, name = ''Gym Class'',
        description = ''Physical education and sports activities'',
        schedule = ''Mondays, Wednesdays, Fridays, 2:00 PM - 3:00 PM'', max_participants = 30\<rparr>,
       \<lparr>a_id = 4, name = ''Soccer Team'',
        description = ''Join the school soccer team and compete in matches'',
        schedule = ''Tuesdays and Thursdays, 4:00 PM - 5:30 PM'', max_participants = 22\<rparr>,
       \<lparr>a_id = 5, name = ''Basketball Team'',
        description = ''Practice and play basketball with the school team'',
        schedule = ''Wednesdays and Fridays, 3:30 PM - 5:00 PM'', max_participants = 15\<rparr>,
       \<lparr>a_id = 6, name = ''Art Club'',
        description = ''Explore your creativity through painting and drawing'',
        schedule = ''Thursdays, 3:30 PM - 5:00 PM'', max_participants = 15\<rparr>,
       \<lparr>a_id = 7, name = ''Drama Club'',
        description = ''Act, direct, and produce plays and performances'',
        schedule = ''Mondays and Wednesdays, 4:00 PM - 5:30 PM'', max_participants = 20\<rparr>,
       \<lparr>a_id = 8, name = ''Math Club'',
        description = ''Solve challenging problems and participate in math competitions'',
        schedule = ''Tuesdays, 3:30 PM - 4:30 PM'', max_participants = 10\<rparr>,
       \<lparr>a_id = 9, name = ''Debate Team'',
        description = ''Develop public speaking and argumentation skills'',
        schedule = ''Fridays, 4:00 PM - 5:30 PM'', max_participants = 12\<rparr>],
     participant_tbl =
      [\<lparr>p_id = 1, email = ''michael@mergington.edu'', activity_id = 1\<rparr>,
       \<lparr>p_id = 2, email = ''daniel@mergington.edu'', activity_id = 1\<rparr>,
       \<lparr>p_id = 3, email = ''emma@mergington.edu'', activity_id = 2\<rparr>,
       \<lparr>p_id = 4, email = ''sophia@mergington.edu'', activity_id = 2\<rparr>,
       \<lparr>p_id = 5, email = ''john@mergington.edu'', activity_id = 3\<rparr>,
       \<lparr>p_id = 6, email = ''olivia@mergington.edu'', activity_id = 3\<rparr>,
       \<lparr>p_id = 7, email = ''liam@mergington.edu'', activity_id = 4\<rparr>,
       \<lparr>p_id = 8, email = ''noah@mergington.edu'', activity_id = 4\<rparr>,
       \<lparr>p_id = 9, email = ''ava@mergington.edu'', activity_id = 5\<rparr>,
       \<lparr>p_id = 10, email = ''mia@mergington.edu'', activity_id = 5\<rparr>,
       \<lparr>p_id = 11, email = ''amelia@mergington.edu'', activity_id = 6\<rparr>,
       \<lparr>p_id = 12, email = ''harper@mergington.edu'', activity_id = 6\<rparr>,
       \<lparr>p_id = 13, email = ''ella@mergington.edu'', activity_id = 7\<rparr>,
       \<lparr>p_id = 14, email = ''scarlett@mergington.edu'', activity_id = 7\<rparr>,
       \<lparr>p_id = 15, email = ''james@mergington.edu'', activity_id = 8\<rparr>,
       \<lparr>p_id = 16, email = ''benjamin@mergington.edu'', activity_id = 8\<rparr>,
       \<lparr>p_id = 17, email = ''charlotte@mergington.edu'', activity_id = 9\<rparr>,
       \<lparr>p_id = 18, email = ''henry@mergington.edu'', activity_id = 9\<rparr>]\<rparr>"
  by (simp add: seed_initial_data_def empty_store_def initial_def seed_loop_lit
      add_participant_lit next_id_Nil next_id_Cons del: seed_loop.simps(2))

lemma wf_seeded: "wf_store (seed_initial_data empty_store)"
  by (simp add: seeded_store_eq wf_store_def)

lemma capacity_seeded: "capacity_ok (seed_initial_data empty_store)"
  by (simp add: seeded_store_eq capacity_ok_def select_participants_of_def)

lemma unique_seeded: "unique_signups (seed_initial_data empty_store)"
  by (simp add: seeded_store_eq unique_signups_def)

lemma get_seeded: "get_activities (seed_initial_data empty_store) = initial"
  by (simp add: seeded_store_eq get_activities_def info_of_def select_participants_of_def initial_def)

subsection \<open>Inserting and deleting under the invariants\<close>

lemma pk_inj:
  "distinct (map f xs) \<Longrightarrow> a \<in> set xs \<Longrightarrow> b \<in> set xs \<Longrightarrow> f a = f b \<Longrightarrow> a = b"
  by (auto simp: distinct_map dest: inj_onD)

lemma length_filter_conj_le:
  "length (filter (\<lambda>x. Q x \<and> P x) xs) \<le> length (filter P xs)"
  by (induction xs) simp_all

lemma capacity_add_participant:
  assumes pk: "distinct (map a_id (activity_tbl s))"
    and cap: "capacity_ok s"
    and act: "act \<in> set (activity_tbl s)"
    and room: "int (length (select_participants_of s (a_id act))) < max_participants act"
  shows "capacity_ok (add_participant e (a_id act) s)"
  unfolding capacity_ok_def list_all_iff
proof
  fix a assume a: "a \<in> set (activity_tbl (add_participant e (a_id act) s))"
  then have a': "a \<in> set (activity_tbl s)" by simp
  with cap have le: "int (length (select_participants_of s (a_id a))) \<le> max_participants a"
    by (simp add: capacity_ok_def list_all_iff)
  show "int (length (select_participants_of (add_participant e (a_id act) s) (a_id a)))
      \<le> max_participants a"
  proof (cases "a_id a = a_id act")
    case True
    from pk a' act True have "a = act" by (rule pk_inj)
    with room show ?thesis
      by (simp add: select_participants_of_def add_participant_def)
  next
    case False
    with le show ?thesis
      by (simp add: select_participants_of_def add_participant_def)
  qed
qed

lemma capacity_delete_participant:
  assumes cap: "capacity_ok s"
  shows "capacity_ok (delete_participant p s)"
  unfolding capacity_ok_def list_all_iff
proof
  fix a assume "a \<in> set (activity_tbl (delete_participant p s))"
  then have "a \<in> set (activity_tbl s)" by (simp add: delete_participant_def)
  with cap have le: "int (length (select_participants_of s (a_id a))) \<le> max_participants a"
    by (simp add: capacity_ok_def list_all_iff)
  have "length (select_participants_of (delete_participant p s) (a_id a))
      \<le> length (select_participants_of s (a_id a))"
    by (simp add: select_participants_of_def delete_participant_def length_filter_conj_le)
  with le show "int (length (select_participants_of (delete_participant p s) (a_id a)))
      \<le> max_participants a"
    by linarith
qed

lemma unique_add_participant:
  "unique_signups s \<Longrightarrow> e \<notin> email ` set (select_participants_of s aid) \<Longrightarrow>
     unique_signups (add_participant e aid s)"
  by (auto simp: unique_signups_def add_participant_def select_participants_of_def)

lemma unique_delete_participant:
  "unique_signups s \<Longrightarrow> unique_signups (delete_participant p s)"
  by (simp add: unique_signups_def delete_participant_def distinct_map_filter)

lemma signup_outcome:
  "select_activity_by_name s n = Some act \<Longrightarrow>
     snd (signup_for_activity s n e) = s \<or>
     (e \<notin> email ` set (select_participants_of s (a_id act)) \<and>
      int (length (select_participants_of s (a_id act))) < max_participants act \<and>
      snd (signup_for_activity s n e) = add_participant e (a_id act) s)"
  by (auto simp: signup_for_activity_def Let_def list_ex_iff)

lemma unregister_outcome:
  "select_activity_by_name s n = Some act \<Longrightarrow>
     snd (unregister_from_activity s n e) = s \<or>
     (\<exists>p\<in>set (participant_tbl s). activity_id p = a_id act \<and> email p = e \<and>
        snd (unregister_from_activity s n e) = delete_participant p s)"
  by (auto simp: unregister_from_activity_def split: option.splits
      dest: select_participant_SomeD)

lemma not_found_outcome:
  "select_activity_by_name s n = None \<Longrightarrow>
     snd (signup_for_activity s n e) = s \<and> snd (unregister_from_activity s n e) = s"
  by (simp add: signup_for_activity_def unregister_from_activity_def)

subsection \<open>The dictionary built by the listing\<close>

lemma find_SomeD: "find P xs = Some x \<Longrightarrow> x \<in> set xs \<and> P x"
  by (induction xs) (auto split: if_splits)

lemma find_append_cases:
  "find P (xs @ ys) = (case find P xs of None \<Rightarrow> find P ys | Some x \<Rightarrow> Some x)"
  by (induction xs) simp_all

lemma update_fresh_key:
  "k \<notin> fst ` set al \<Longrightarrow> AList.update k v al = al @ [(k, v)]"
  by (induction al) auto

lemma fold_update_map_of:
  "map_of (fold (\<lambda>act r. AList.update (name act) (f act) r) xs r0) k =
     (case find (\<lambda>a. name a = k) (rev xs) of
        Some a \<Rightarrow> Some (f a)
      | None \<Rightarrow> map_of r0 k)"
proof (induction xs arbitrary: r0)
  case Nil
  then show ?case by simp
next
  case (Cons x xs)
  show ?case
    by (simp add: Cons.IH find_append_cases update_conv' split: option.splits)
qed

lemma fold_update_keys:
  "fst ` set (fold (\<lambda>act r. AList.update (name act) (f act) r) xs r0) =
     name ` set xs \<union> fst ` set r0"
  by (induction xs arbitrary: r0) (auto simp: dom_update)

lemma fold_update_distinct:
  "distinct (map fst r0) \<Longrightarrow>
     distinct (map fst (fold (\<lambda>act r. AList.update (name act) (f act) r) xs r0))"
  by (induction xs arbitrary: r0) (simp_all add: distinct_update)

lemma fold_update_distinct_names:
  "distinct (map name xs) \<Longrightarrow> name ` set xs \<inter> fst ` set r0 = {} \<Longrightarrow>
     fold (\<lambda>act r. AList.update (name act) (f act) r) xs r0 =
       r0 @ map (\<lambda>act. (name act, f act)) xs"
proof (induction xs arbitrary: r0)
  case Nil
  then show ?case by simp
next
  case (Cons x xs)
  from Cons.prems have fresh: "name x \<notin> fst ` set r0" by auto
  then have u: "AList.update (name x) (f x) r0 = r0 @ [(name x, f x)]"
    by (rule update_fresh_key)
  from Cons.prems have "distinct (map name xs)"
    and "name ` set xs \<inter> fst ` set (r0 @ [(name x, f x)]) = {}"
    by auto
  from Cons.IH[OF this] show ?case by (simp add: u)
qed

lemma get_activities_keys: "fst ` set (get_activities s) = name ` set (activity_tbl s)"
  by (simp add: get_activities_def fold_update_keys)

lemma get_activities_distinct: "distinct (map fst (get_activities s))"
  by (simp add: get_activities_def fold_update_distinct)

lemma get_activities_lookup:
  "map_of (get_activities s) k =
     map_option (info_of s) (find (\<lambda>a. name a = k) (rev (activity_tbl s)))"
  by (simp add: get_activities_def fold_update_map_of split: option.splits)

lemma get_activities_distinct_names:
  "distinct (map name (activity_tbl s)) \<Longrightarrow>
     get_activities s = map (\<lambda>act. (name act, info_of s act)) (activity_tbl s)"
  by (simp add: get_activities_def fold_update_distinct_names)

lemma get_activities_entry:
  assumes "(k, v) \<in> set (get_activities s)"
  shows "\<exists>act\<in>set (activity_tbl s). name act = k \<and> v = info_of s act"
proof -
  from assms have "map_of (get_activities s) k = Some v"
    by (simp add: get_activities_distinct)
  then obtain act where "find (\<lambda>a. name a = k) (rev (activity_tbl s)) = Some act"
    and v: "v = info_of s act"
    by (auto simp: get_activities_lookup)
  then have "act \<in> set (activity_tbl s)" "name act = k"
    by (auto dest: find_SomeD)
  with v show ?thesis by blast
qed

lemma seed_loop_names:
  "map name (activity_tbl (seed_loop xs s)) = map name (activity_tbl s) @ map fst xs"
proof (induction xs s rule: seed_loop.induct)
  case (1 s)
  then show ?case by simp
next
  case (2 n d rest s)
  obtain act s1 where a: "add_activity n (info_description d) (info_schedule d)
      (info_max_participants d) s = (act, s1)"
    by (cases "add_activity n (info_description d) (info_schedule d) (info_max_participants d) s")
  then have "activity_tbl s1 = activity_tbl s @ [act]" "name act = n"
    by (auto simp: add_activity_def Let_def)
  with "2.IH"[OF a[symmetric]] a show ?case by simp
qed

lemma seed_nonempty: "activity_tbl (seed_initial_data s) \<noteq> []"
proof (cases "activity_tbl s")
  case Nil
  then have "map name (activity_tbl (seed_initial_data s)) = map fst initial"
    by (simp add: seed_initial_data_def seed_loop_names)
  then have "length (activity_tbl (seed_initial_data s)) = length initial"
    by (metis length_map)
  then show ?thesis by (auto simp: initial_def)
next
  case (Cons a as)
  then show ?thesis by (simp add: seed_initial_data_def)
qed

lemma seed_noop: "activity_tbl s \<noteq> [] \<Longrightarrow> seed_initial_data s = s"
  by (cases "activity_tbl s") (simp_all add: seed_initial_data_def)

lemma seed_twice: "seed_initial_data (seed_initial_data s) = seed_initial_data s"
  by (rule seed_noop) (rule seed_nonempty)

subsection \<open>Name resolution\<close>

lemma find_first_match:
  "\<forall>a\<in>set pre. \<not> P a \<Longrightarrow> P x \<Longrightarrow> find P (pre @ x # rest) = Some x"
  by (induction pre) simp_all

lemma single_entry:
  "distinct (map fst al) \<Longrightarrow> k \<in> fst ` set al \<Longrightarrow>
     length (filter (\<lambda>kv. fst kv = k) al) = 1"
proof (induction al)
  case Nil
  then show ?case by simp
next
  case (Cons p al)
  show ?case
  proof (cases "fst p = k")
    case True
    with Cons.prems have "k \<notin> fst ` set al" by simp
    then have "\<forall>q\<in>set al. fst q \<noteq> k" by (metis imageI)
    then have "filter (\<lambda>kv. fst kv = k) al = []"
      by (auto simp: filter_empty_conv)
    with True show ?thesis by simp
  next
    case False
    with Cons show ?thesis by (auto simp: case_prod_beta)
  qed
qed

lemma signup_resolved:
  "select_activity_by_name s n = Some act \<Longrightarrow>
     signup_for_activity s n e =
       (if e \<in> email ` set (select_participants_of s (a_id act))
        then (Inl (HTTPException 400 ''Student is already signed up''), s)
        else if max_participants act \<le> int (length (select_participants_of s (a_id act)))
        then (Inl (HTTPException 400 ''Activity is full''), s)
        else (Inr (''Signed up '' @ e @ '' for '' @ n), add_participant e (a_id act) s))"
  by (auto simp: signup_for_activity_def Let_def list_ex_iff)

lemma unregister_resolved:
  "select_activity_by_name s n = Some act \<Longrightarrow>
     unregister_from_activity s n e =
       (case select_participant s (a_id act) e of
          None \<Rightarrow> (Inl (HTTPException 400 ''Student is not signed up for this activity''), s)
        | Some p \<Rightarrow> (Inr (''Unregistered '' @ e @ '' from '' @ n), delete_participant p s))"
  by (simp add: unregister_from_activity_def)

lemma other_participants_signup:
  "select_activity_by_name s n = Some act \<Longrightarrow> aid \<noteq> a_id act \<Longrightarrow>
     select_participants_of (snd (signup_for_activity s n e)) aid = select_participants_of s aid"
  using signup_outcome[of s n act e]
  by (auto simp: select_participants_of_def add_participant_def)

lemma other_participants_delete:
  assumes pk: "distinct (map p_id (participant_tbl s))"
    and p: "p \<in> set (participant_tbl s)" and ne: "aid \<noteq> activity_id p"
  shows "select_participants_of (delete_participant p s) aid = select_participants_of s aid"
proof -
  have "\<And>q. q \<in> set (participant_tbl s) \<Longrightarrow> activity_id q = aid \<Longrightarrow> p_id q \<noteq> p_id p"
    using pk p ne pk_inj[of p_id "participant_tbl s"] by metis
  then have "filter (\<lambda>q. activity_id q = aid) (filter (\<lambda>q. p_id q \<noteq> p_id p) (participant_tbl s))
      = filter (\<lambda>q. activity_id q = aid) (participant_tbl s)"
    by (auto intro: filter_cong)
  then show ?thesis
    unfolding select_participants_of_def delete_participant_def by simp
qed

lemma other_participants_unregister:
  assumes act: "select_activity_by_name s n = Some act"
    and pk: "distinct (map p_id (participant_tbl s))" and ne: "aid \<noteq> a_id act"
  shows "select_participants_of (snd (unregister_from_activity s n e)) aid =
     select_participants_of s aid"
  using unregister_outcome[OF act, of e] pk ne
  by (auto simp: other_participants_delete)

subsection \<open>Facts about the example store\<close>

lemma demo_wf: "wf_store demo_store"
  by (simp add: wf_store_def demo_store_def)

lemma demo_capacity: "capacity_ok demo_store"
  by (simp add: capacity_ok_def select_participants_of_def demo_store_def)

lemma demo_unique: "unique_signups demo_store"
  by (simp add: unique_signups_def demo_store_def)

lemma demo_solo:
  "select_activity_by_name demo_store ''Solo'' =
     Some \<lparr>a_id = 2, name = ''Solo'', description = ''Single seat'', schedule = ''Tuesdays'',
           max_participants = 1\<rparr>"
  by (simp add: select_activity_by_name_def demo_store_def)

lemma demo_duo:
  "select_activity_by_name demo_store ''Duo'' =
     Some \<lparr>a_id = 1, name = ''Duo'', description = ''Pair work'', schedule = ''Mondays'',
           max_participants = 2\<rparr>"
  by (simp add: select_activity_by_name_def demo_store_def)

lemma demo_trio: "\<forall>a\<in>set (activity_tbl demo_store). name a \<noteq> ''Trio''"
  by (simp add: demo_store_def)

lemma demo_signup_solo:
  "signup_for_activity demo_store ''Solo'' ''c@mergington.edu'' =
     (Inr ''Signed up c@mergington.edu for Solo'',
      demo_store\<lparr>participant_tbl := participant_tbl demo_store @
        [\<lparr>p_id = 3, email = ''c@mergington.edu'', activity_id = 2\<rparr>]\<rparr>)"
  by (simp add: signup_for_activity_def select_activity_by_name_def select_participants_of_def
      add_participant_def next_id_def demo_store_def)

subsection \<open>Preservation lemmas\<close>

lemma capacity_signup:
  assumes wf: "wf_store s" and cap: "capacity_ok s"
  shows "capacity_ok (snd (signup_for_activity s n e))"
proof (cases "select_activity_by_name s n")
  case None
  with cap show ?thesis by (simp add: not_found_outcome)
next
  case (Some act)
  from wf have pk: "distinct (map a_id (activity_tbl s))" by (simp add: wf_store_def)
  from signup_outcome[OF Some, of e] select_activity_SomeD[OF Some] pk cap
  show ?thesis by (auto intro: capacity_add_participant)
qed

lemma capacity_unregister:
  assumes cap: "capacity_ok s"
  shows "capacity_ok (snd (unregister_from_activity s n e))"
proof (cases "select_activity_by_name s n")
  case None
  with cap show ?thesis by (simp add: not_found_outcome)
next
  case (Some act)
  from unregister_outcome[OF Some, of e] cap
  show ?thesis by (auto intro: capacity_delete_participant)
qed

lemma capacity_seed:
  assumes wf: "wf_store s" and cap: "capacity_ok s"
  shows "capacity_ok (seed_initial_data s)"
proof (cases "activity_tbl s = []")
  case True
  with wf have "s = empty_store" by (rule wf_empty_activities)
  then show ?thesis by (simp add: capacity_seeded)
next
  case False
  with cap show ?thesis by (simp add: seed_noop)
qed

lemma unique_signup:
  assumes u: "unique_signups s"
  shows "unique_signups (snd (signup_for_activity s n e))"
proof (cases "select_activity_by_name s n")
  case None
  with u show ?thesis by (simp add: not_found_outcome)
next
  case (Some act)
  from signup_outcome[OF Some, of e] u
  show ?thesis by (auto intro: unique_add_participant)
qed

lemma unique_unregister:
  assumes u: "unique_signups s"
  shows "unique_signups (snd (unregister_from_activity s n e))"
proof (cases "select_activity_by_name s n")
  case None
  with u show ?thesis by (simp add: not_found_outcome)
next
  case (Some act)
  from unregister_outcome[OF Some, of e] u
  show ?thesis by (auto intro: unique_delete_participant)
qed

lemma unique_seed:
  assumes wf: "wf_store s" and u: "unique_signups s"
  shows "unique_signups (seed_initial_data s)"
proof (cases "activity_tbl s = []")
  case True
  with wf have "s = empty_store" by (rule wf_empty_activities)
  then show ?thesis by (simp add: unique_seeded)
next
  case False
  with u show ?thesis by (simp add: seed_noop)
qed

lemma reachable_invariants:
  "reachable s \<Longrightarrow> wf_store s \<and> capacity_ok s \<and> unique_signups s"
proof (induction rule: reachable.induct)
  case start
  show ?case by (simp add: wf_seeded capacity_seeded unique_seeded)
next
  case (signup s n e)
  then show ?case by (simp add: wf_signup capacity_signup unique_signup)
next
  case (unregister s n e)
  then show ?case by (simp add: wf_unregister capacity_unregister unique_unregister)
next
  case (restart s)
  then show ?case by (simp add: wf_seed_initial_data capacity_seed unique_seed)
qed

lemma map_of_by_name:
  "distinct (map name xs) \<Longrightarrow> act \<in> set xs \<Longrightarrow>
     map_of (map (\<lambda>a. (name a, f a)) xs) (name act) = Some (f act)"
proof (induction xs)
  case Nil
  then show ?case by simp
next
  case (Cons a xs)
  show ?case
  proof (cases "a = act")
    case True
    then show ?thesis by simp
  next
    case False
    with Cons.prems have in_xs: "act \<in> set xs" by simp
    from Cons.prems have "name a \<notin> name ` set xs" by simp
    with in_xs have "name a \<noteq> name act" by (metis imageI)
    moreover from Cons.prems have "distinct (map name xs)" by simp
    ultimately show ?thesis using Cons.IH in_xs by simp
  qed
qed

lemma listing_of_resolved:
  assumes d: "distinct (map name (activity_tbl s))"
    and act: "select_activity_by_name s n = Some act"
  shows "map_of (get_activities s) n = Some (info_of s act)"
proof -
  from act have "act \<in> set (activity_tbl s)" "name act = n"
    by (simp_all add: select_activity_SomeD)
  with d map_of_by_name[of "activity_tbl s" act "info_of s"] show ?thesis
    by (simp add: get_activities_distinct_names)
qed

section \<open>Failed requests change nothing\<close>

text \<open>
  Claim C5. Whenever \<open>signup_for_activity\<close> or \<open>unregister_from_activity\<close> raises, the
  store the request leaves behind is the store it found. A signup that succeeded,
  repeated on the store it produced, raises 400 "Student is already signed up" and
  leaves that store (hence every participant count) as it is.
\<close>

theorem failure_leaves_store_unchanged:
  "(\<forall>x. fst (signup_for_activity s n e) = Inl x \<longrightarrow> snd (signup_for_activity s n e) = s) \<and>
   (\<forall>x. fst (unregister_from_activity s n e) = Inl x \<longrightarrow>
        snd (unregister_from_activity s n e) = s) \<and>
   (\<forall>m s'. signup_for_activity s n e = (Inr m, s') \<longrightarrow>
        signup_for_activity s' n e =
          (Inl (HTTPException 400 ''Student is already signed up''), s'))"
proof (intro conjI allI impI)
  fix x assume "fst (signup_for_activity s n e) = Inl x"
  then show "snd (signup_for_activity s n e) = s"
    by (auto simp: signup_for_activity_def Let_def split: option.splits if_splits)
next
  fix x assume "fst (unregister_from_activity s n e) = Inl x"
  then show "snd (unregister_from_activity s n e) = s"
    by (auto simp: unregister_from_activity_def split: option.splits)
next
  fix m s' assume ok: "signup_for_activity s n e = (Inr m, s')"
  then obtain act where act: "select_activity_by_name s n = Some act"
    and s': "s' = add_participant e (a_id act) s"
    by (auto simp: signup_for_activity_def Let_def split: option.splits if_splits)
  have "select_activity_by_name s' n = Some act"
    using act s' by (simp add: select_activity_by_name_def)
  moreover have "list_ex (\<lambda>p. email p = e) (select_participants_of s' (a_id act))"
    using s' by (simp add: select_participants_of_def add_participant_def list_ex_iff)
  ultimately show "signup_for_activity s' n e =
      (Inl (HTTPException 400 ''Student is already signed up''), s')"
    by (simp add: signup_for_activity_def Let_def)
qed

text \<open>The three parts on \<open>demo_store\<close>: a signup to the full \<open>Duo\<close>, an unregistration
  of somebody who is not in \<open>Solo\<close>, and a signup to \<open>Solo\<close> sent twice.\<close>

theorem failure_leaves_store_unchanged_witness:
  "fst (signup_for_activity demo_store ''Duo'' ''c@mergington.edu'') =
     Inl (HTTPException 400 ''Activity is full'') \<and>
   snd (signup_for_activity demo_store ''Duo'' ''c@mergington.edu'') = demo_store \<and>
   fst (unregister_from_activity demo_store ''Solo'' ''a@mergington.edu'') =
     Inl (HTTPException 400 ''Student is not signed up for this activity'') \<and>
   snd (unregister_from_activity demo_store ''Solo'' ''a@mergington.edu'') = demo_store \<and>
   signup_for_activity demo_store ''Solo'' ''c@mergington.edu'' =
     (Inr ''Signed up c@mergington.edu for Solo'',
      add_participant ''c@mergington.edu'' 2 demo_store) \<and>
   signup_for_activity (add_participant ''c@mergington.edu'' 2 demo_store)
       ''Solo'' ''c@mergington.edu'' =
     (Inl (HTTPException 400 ''Student is already signed up''),
      add_participant ''c@mergington.edu'' 2 demo_store)"
proof -
  have f1: "fst (signup_for_activity demo_store ''Duo'' ''c@mergington.edu'') =
      Inl (HTTPException 400 ''Activity is full'')"
    by (simp add: signup_for_activity_def select_activity_by_name_def
        select_participants_of_def demo_store_def)
  have f2: "fst (unregister_from_activity demo_store ''Solo'' ''a@mergington.edu'') =
      Inl (HTTPException 400 ''Student is not signed up for this activity'')"
    by (simp add: unregister_from_activity_def select_activity_by_name_def
        select_participant_def demo_store_def)
  have f3: "signup_for_activity demo_store ''Solo'' ''c@mergington.edu'' =
      (Inr ''Signed up c@mergington.edu for Solo'',
       add_participant ''c@mergington.edu'' 2 demo_store)"
    by (simp add: signup_for_activity_def select_activity_by_name_def
        select_participants_of_def demo_store_def)
  note a = failure_leaves_store_unchanged[of demo_store "''Duo''" "''c@mergington.edu''"]
  note b = failure_leaves_store_unchanged[of demo_store "''Solo''" "''a@mergington.edu''"]
  note c = failure_leaves_store_unchanged[of demo_store "''Solo''" "''c@mergington.edu''"]
  from a f1 have g1: "snd (signup_for_activity demo_store ''Duo'' ''c@mergington.edu'') = demo_store"
    by blast
  from b f2 have g2:
    "snd (unregister_from_activity demo_store ''Solo'' ''a@mergington.edu'') = demo_store"
    by blast
  from c f3 have g3: "signup_for_activity (add_participant ''c@mergington.edu'' 2 demo_store)
       ''Solo'' ''c@mergington.edu'' =
     (Inl (HTTPException 400 ''Student is already signed up''),
      add_participant ''c@mergington.edu'' 2 demo_store)"
    by blast
  from f1 f2 f3 g1 g2 g3 show ?thesis by blast
qed

section \<open>The cases of signup\<close>

text \<open>
  Claim C1 says that a signup which finds its activity and a new email is refused when
  the participant count \<^emph>\<open>equals\<close> \<open>max_participants\<close>, and inserts otherwise. The
  code compares with \<open>>=\<close>: on \<open>over_store\<close> the activity \<open>Duo\<close> exists, the email is
  new, the count is 2 and the capacity is 1, and the request is refused with 400
  "Activity is full" where the claim as stated has it insert a row.
\<close>

theorem signup_count_equals_max_counterexample:
  "select_activity_by_name over_store ''Duo'' =
     Some \<lparr>a_id = 1, name = ''Duo'', description = ''Pair work'', schedule = ''Mondays'',
           max_participants = 1\<rparr> \<and>
   map email (select_participants_of over_store 1) = [''a@mergington.edu'', ''b@mergington.edu''] \<and>
   int (length (select_participants_of over_store 1)) \<noteq> 1 \<and>
   signup_for_activity over_store ''Duo'' ''c@mergington.edu'' =
     (Inl (HTTPException 400 ''Activity is full''), over_store)"
  by (simp add: signup_for_activity_def select_activity_by_name_def
      select_participants_of_def over_store_def)

text \<open>
  Claim C1, amended. For every store and every \<open>(n, e)\<close>: if no activity row is named
  \<open>n\<close> the request fails with 404 "Activity not found"; otherwise, with \<open>act\<close> the row
  the name resolves to, it fails with 400 "Student is already signed up" if \<open>e\<close> is among
  the emails of the participants of \<open>act\<close>; otherwise it fails with 400 "Activity is
  full" if their number is greater than or equal to \<open>max_participants act\<close>; otherwise
  it appends exactly one participant row \<open>(a_id act, e)\<close>, under a key no row had, and
  answers "Signed up e for n". A failing request leaves the store as it was.
\<close>

theorem signup_cases:
  "((\<forall>a\<in>set (activity_tbl s). name a \<noteq> n) \<longrightarrow>
      signup_for_activity s n e = (Inl (HTTPException 404 ''Activity not found''), s)) \<and>
   (\<forall>act. select_activity_by_name s n = Some act \<longrightarrow>
      act \<in> set (activity_tbl s) \<and> name act = n \<and>
      (e \<in> email ` set (select_participants_of s (a_id act)) \<longrightarrow>
         signup_for_activity s n e =
           (Inl (HTTPException 400 ''Student is already signed up''), s)) \<and>
      (e \<notin> email ` set (select_participants_of s (a_id act)) \<and>
       int (length (select_participants_of s (a_id act))) \<ge> max_participants act \<longrightarrow>
         signup_for_activity s n e = (Inl (HTTPException 400 ''Activity is full''), s)) \<and>
      (e \<notin> email ` set (select_participants_of s (a_id act)) \<and>
       int (length (select_participants_of s (a_id act))) < max_participants act \<longrightarrow>
         (\<exists>pid. pid \<notin> p_id ` set (participant_tbl s) \<and>
            signup_for_activity s n e =
              (Inr (''Signed up '' @ e @ '' for '' @ n),
               s\<lparr>participant_tbl := participant_tbl s @
                    [\<lparr>p_id = pid, email = e, activity_id = a_id act\<rparr>]\<rparr>))))"
proof (intro conjI allI impI)
  assume "\<forall>a\<in>set (activity_tbl s). name a \<noteq> n"
  then have "select_activity_by_name s n = None" by (simp add: select_activity_None)
  then show "signup_for_activity s n e = (Inl (HTTPException 404 ''Activity not found''), s)"
    by (simp add: signup_for_activity_def)
next
  fix act assume "select_activity_by_name s n = Some act"
  then show "act \<in> set (activity_tbl s)" "name act = n"
    by (simp_all add: select_activity_SomeD)
next
  fix act assume "select_activity_by_name s n = Some act"
    and "e \<in> email ` set (select_participants_of s (a_id act))"
  then show "signup_for_activity s n e =
      (Inl (HTTPException 400 ''Student is already signed up''), s)"
    by (auto simp: signup_for_activity_def Let_def list_ex_iff)
next
  fix act assume "select_activity_by_name s n = Some act"
    and "e \<notin> email ` set (select_participants_of s (a_id act)) \<and>
         int (length (select_participants_of s (a_id act))) \<ge> max_participants act"
  then show "signup_for_activity s n e = (Inl (HTTPException 400 ''Activity is full''), s)"
    by (auto simp: signup_for_activity_def Let_def list_ex_iff)
next
  fix act assume act: "select_activity_by_name s n = Some act"
    and free: "e \<notin> email ` set (select_participants_of s (a_id act)) \<and>
         int (length (select_participants_of s (a_id act))) < max_participants act"
  let ?pid = "next_id (map p_id (participant_tbl s))"
  have "?pid \<notin> p_id ` set (participant_tbl s)"
    using next_id_notin[of "map p_id (participant_tbl s)"] by simp
  moreover have "signup_for_activity s n e =
      (Inr (''Signed up '' @ e @ '' for '' @ n),
       s\<lparr>participant_tbl := participant_tbl s @
            [\<lparr>p_id = ?pid, email = e, activity_id = a_id act\<rparr>]\<rparr>)"
    using act free by (auto simp: signup_for_activity_def Let_def list_ex_iff add_participant_def)
  ultimately show "\<exists>pid. pid \<notin> p_id ` set (participant_tbl s) \<and>
      signup_for_activity s n e =
        (Inr (''Signed up '' @ e @ '' for '' @ n),
         s\<lparr>participant_tbl := participant_tbl s @
              [\<lparr>p_id = pid, email = e, activity_id = a_id act\<rparr>]\<rparr>)"
    by blast
qed

text \<open>One request on \<open>demo_store\<close> for each of the four cases.\<close>

theorem signup_cases_witness:
  "signup_for_activity demo_store ''Trio'' ''c@mergington.edu'' =
     (Inl (HTTPException 404 ''Activity not found''), demo_store) \<and>
   signup_for_activity demo_store ''Duo'' ''b@mergington.edu'' =
     (Inl (HTTPException 400 ''Student is already signed up''), demo_store) \<and>
   signup_for_activity demo_store ''Duo'' ''c@mergington.edu'' =
     (Inl (HTTPException 400 ''Activity is full''), demo_store) \<and>
   (\<exists>pid. pid \<notin> {1, 2} \<and>
      signup_for_activity demo_store ''Solo'' ''c@mergington.edu'' =
        (Inr ''Signed up c@mergington.edu for Solo'',
         demo_store\<lparr>participant_tbl := participant_tbl demo_store @
           [\<lparr>p_id = pid, email = ''c@mergington.edu'', activity_id = 2\<rparr>]\<rparr>))"
proof -
  have none: "\<forall>a\<in>set (activity_tbl demo_store). name a \<noteq> ''Trio''"
    by (simp add: demo_store_def)
  have duo: "select_activity_by_name demo_store ''Duo'' =
      Some \<lparr>a_id = 1, name = ''Duo'', description = ''Pair work'', schedule = ''Mondays'',
            max_participants = 2\<rparr>"
    by (simp add: select_activity_by_name_def demo_store_def)
  have solo: "select_activity_by_name demo_store ''Solo'' =
      Some \<lparr>a_id = 2, name = ''Solo'', description = ''Single seat'', schedule = ''Tuesdays'',
            max_participants = 1\<rparr>"
    by (simp add: select_activity_by_name_def demo_store_def)
  have p1: "select_participants_of demo_store 1 =
      [\<lparr>p_id = 1, email = ''a@mergington.edu'', activity_id = 1\<rparr>,
       \<lparr>p_id = 2, email = ''b@mergington.edu'', activity_id = 1\<rparr>]"
    by (simp add: select_participants_of_def demo_store_def)
  have p2: "select_participants_of demo_store 2 = []"
    by (simp add: select_participants_of_def demo_store_def)
  have ids: "p_id ` set (participant_tbl demo_store) = {1, 2}"
    by (simp add: demo_store_def)
  show ?thesis
    using signup_cases[of demo_store "''Trio''" "''c@mergington.edu''"]
      signup_cases[of demo_store "''Duo''" "''b@mergington.edu''"]
      signup_cases[of demo_store "''Duo''" "''c@mergington.edu''"]
      signup_cases[of demo_store "''Solo''" "''c@mergington.edu''"]
      none duo solo
    by (simp add: p1 p2 ids)
qed

section \<open>The cases of unregister\<close>

text \<open>
  Claim C2. For every store and every \<open>(n, e)\<close>: if no activity row is named \<open>n\<close> the
  request fails with 404 "Activity not found"; otherwise, with \<open>act\<close> the row the name
  resolves to, it fails with 400 (not 404) "Student is not signed up for this activity"
  if no participant row has \<open>activity_id = a_id act\<close> and \<open>email = e\<close>; otherwise it
  deletes such a row by its primary key and answers "Unregistered e from n". Where the
  primary keys of the participant table are distinct, the table afterwards is the old
  one with exactly that row removed.
\<close>

theorem unregister_cases:
  "((\<forall>a\<in>set (activity_tbl s). name a \<noteq> n) \<longrightarrow>
      unregister_from_activity s n e = (Inl (HTTPException 404 ''Activity not found''), s)) \<and>
   (\<forall>act. select_activity_by_name s n = Some act \<longrightarrow>
      act \<in> set (activity_tbl s) \<and> name act = n \<and>
      ((\<forall>p\<in>set (participant_tbl s). \<not> (activity_id p = a_id act \<and> email p = e)) \<longrightarrow>
         unregister_from_activity s n e =
           (Inl (HTTPException 400 ''Student is not signed up for this activity''), s)) \<and>
      ((\<exists>p\<in>set (participant_tbl s). activity_id p = a_id act \<and> email p = e) \<longrightarrow>
         (\<exists>p\<in>set (participant_tbl s). activity_id p = a_id act \<and> email p = e \<and>
            unregister_from_activity s n e =
              (Inr (''Unregistered '' @ e @ '' from '' @ n),
               s\<lparr>participant_tbl := filter (\<lambda>q. p_id q \<noteq> p_id p) (participant_tbl s)\<rparr>) \<and>
            (distinct (map p_id (participant_tbl s)) \<longrightarrow>
               participant_tbl (snd (unregister_from_activity s n e)) =
                 remove1 p (participant_tbl s)))))"
proof (intro conjI allI impI)
  assume "\<forall>a\<in>set (activity_tbl s). name a \<noteq> n"
  then have "select_activity_by_name s n = None" by (simp add: select_activity_None)
  then show "unregister_from_activity s n e =
      (Inl (HTTPException 404 ''Activity not found''), s)"
    by (simp add: unregister_from_activity_def)
next
  fix act assume "select_activity_by_name s n = Some act"
  then show "act \<in> set (activity_tbl s)" "name act = n"
    by (simp_all add: select_activity_SomeD)
next
  fix act assume act: "select_activity_by_name s n = Some act"
    and "\<forall>p\<in>set (participant_tbl s). \<not> (activity_id p = a_id act \<and> email p = e)"
  then have "select_participant s (a_id act) e = None"
    by (simp add: select_participant_None)
  with act show "unregister_from_activity s n e =
      (Inl (HTTPException 400 ''Student is not signed up for this activity''), s)"
    by (simp add: unregister_from_activity_def)
next
  fix act assume act: "select_activity_by_name s n = Some act"
    and ex: "\<exists>p\<in>set (participant_tbl s). activity_id p = a_id act \<and> email p = e"
  then have "select_participant s (a_id act) e \<noteq> None"
    by (simp add: select_participant_None)
  then obtain p where p: "select_participant s (a_id act) e = Some p" by blast
  note m = select_participant_SomeD[OF p]
  have r: "unregister_from_activity s n e =
      (Inr (''Unregistered '' @ e @ '' from '' @ n),
       s\<lparr>participant_tbl := filter (\<lambda>q. p_id q \<noteq> p_id p) (participant_tbl s)\<rparr>)"
    using act p by (simp add: unregister_from_activity_def delete_participant_def)
  have "distinct (map p_id (participant_tbl s)) \<longrightarrow>
      participant_tbl (snd (unregister_from_activity s n e)) = remove1 p (participant_tbl s)"
    using m by (simp add: r filter_pk_remove1)
  with m r show "\<exists>p\<in>set (participant_tbl s). activity_id p = a_id act \<and> email p = e \<and>
      unregister_from_activity s n e =
        (Inr (''Unregistered '' @ e @ '' from '' @ n),
         s\<lparr>participant_tbl := filter (\<lambda>q. p_id q \<noteq> p_id p) (participant_tbl s)\<rparr>) \<and>
      (distinct (map p_id (participant_tbl s)) \<longrightarrow>
         participant_tbl (snd (unregister_from_activity s n e)) = remove1 p (participant_tbl s))"
    by blast
qed

text \<open>One request on \<open>demo_store\<close> for each of the three cases.\<close>

theorem unregister_cases_witness:
  "unregister_from_activity demo_store ''Trio'' ''a@mergington.edu'' =
     (Inl (HTTPException 404 ''Activity not found''), demo_store) \<and>
   unregister_from_activity demo_store ''Solo'' ''a@mergington.edu'' =
     (Inl (HTTPException 400 ''Student is not signed up for this activity''), demo_store) \<and>
   (\<exists>p\<in>set (participant_tbl demo_store). activity_id p = 1 \<and> email p = ''a@mergington.edu'' \<and>
      unregister_from_activity demo_store ''Duo'' ''a@mergington.edu'' =
        (Inr ''Unregistered a@mergington.edu from Duo'',
         demo_store\<lparr>participant_tbl :=
           filter (\<lambda>q. p_id q \<noteq> p_id p) (participant_tbl demo_store)\<rparr>) \<and>
      participant_tbl (snd (unregister_from_activity demo_store ''Duo'' ''a@mergington.edu'')) =
        remove1 p (participant_tbl demo_store))"
proof -
  have none: "\<forall>a\<in>set (activity_tbl demo_store). name a \<noteq> ''Trio''"
    by (simp add: demo_store_def)
  have duo: "select_activity_by_name demo_store ''Duo'' =
      Some \<lparr>a_id = 1, name = ''Duo'', description = ''Pair work'', schedule = ''Mondays'',
            max_participants = 2\<rparr>"
    by (simp add: select_activity_by_name_def demo_store_def)
  have solo: "select_activity_by_name demo_store ''Solo'' =
      Some \<lparr>a_id = 2, name = ''Solo'', description = ''Single seat'', schedule = ''Tuesdays'',
            max_participants = 1\<rparr>"
    by (simp add: select_activity_by_name_def demo_store_def)
  have absent: "\<forall>p\<in>set (participant_tbl demo_store).
      \<not> (activity_id p = 2 \<and> email p = ''a@mergington.edu'')"
    by (simp add: demo_store_def)
  have present: "\<exists>p\<in>set (participant_tbl demo_store).
      activity_id p = 1 \<and> email p = ''a@mergington.edu''"
    by (simp add: demo_store_def)
  have pk: "distinct (map p_id (participant_tbl demo_store))"
    by (simp add: demo_store_def)
  from unregister_cases[of demo_store "''Trio''" "''a@mergington.edu''"] none
  have c1: "unregister_from_activity demo_store ''Trio'' ''a@mergington.edu'' =
     (Inl (HTTPException 404 ''Activity not found''), demo_store)"
    by blast
  from unregister_cases[of demo_store "''Solo''" "''a@mergington.edu''"] solo absent
  have c2: "unregister_from_activity demo_store ''Solo'' ''a@mergington.edu'' =
     (Inl (HTTPException 400 ''Student is not signed up for this activity''), demo_store)"
    by simp
  from unregister_cases[of demo_store "''Duo''" "''a@mergington.edu''"] duo present pk
  have c3: "\<exists>p\<in>set (participant_tbl demo_store). activity_id p = 1 \<and> email p = ''a@mergington.edu'' \<and>
      unregister_from_activity demo_store ''Duo'' ''a@mergington.edu'' =
        (Inr ''Unregistered a@mergington.edu from Duo'',
         demo_store\<lparr>participant_tbl :=
           filter (\<lambda>q. p_id q \<noteq> p_id p) (participant_tbl demo_store)\<rparr>) \<and>
      participant_tbl (snd (unregister_from_activity demo_store ''Duo'' ''a@mergington.edu'')) =
        remove1 p (participant_tbl demo_store)"
    by simp
  from c1 c2 c3 show ?thesis by blast
qed

section \<open>The capacity invariant\<close>

text \<open>
  Claim C3. In a store that meets the schema's constraints (\<open>wf_store\<close>) and in which no
  activity has more participant rows than its \<open>max_participants\<close> (\<open>capacity_ok\<close>),
  signup, unregister and seeding each leave a store that again meets both; seeding the
  fresh database establishes both, so both hold in every reachable store. A signup whose
  activity already has \<open>max_participants\<close> participant rows, or more, answers 400 and
  changes nothing.
\<close>

theorem capacity_invariant:
  "(wf_store s \<and> capacity_ok s \<longrightarrow>
      wf_store (snd (signup_for_activity s n e)) \<and>
      capacity_ok (snd (signup_for_activity s n e)) \<and>
      wf_store (snd (unregister_from_activity s n e)) \<and>
      capacity_ok (snd (unregister_from_activity s n e)) \<and>
      wf_store (seed_initial_data s) \<and>
      capacity_ok (seed_initial_data s)) \<and>
   wf_store (seed_initial_data empty_store) \<and>
   capacity_ok (seed_initial_data empty_store) \<and>
   (reachable s \<longrightarrow> wf_store s \<and> capacity_ok s) \<and>
   (\<forall>act. select_activity_by_name s n = Some act \<and>
      max_participants act \<le> int (length (select_participants_of s (a_id act))) \<longrightarrow>
      (\<exists>d. signup_for_activity s n e = (Inl (HTTPException 400 d), s)))"
proof (intro conjI allI impI)
  assume h: "wf_store s \<and> capacity_ok s"
  then have wf: "wf_store s" and cap: "capacity_ok s" by simp_all
  show "wf_store (snd (signup_for_activity s n e))" using wf by (rule wf_signup)
  show "wf_store (snd (unregister_from_activity s n e))" using wf by (rule wf_unregister)
  show "wf_store (seed_initial_data s)" using wf by (rule wf_seed_initial_data)
  show "capacity_ok (snd (signup_for_activity s n e))" using wf cap by (rule capacity_signup)
  show "capacity_ok (snd (unregister_from_activity s n e))"
    using cap by (rule capacity_unregister)
  show "capacity_ok (seed_initial_data s)" using wf cap by (rule capacity_seed)
next
  show "wf_store (seed_initial_data empty_store)" by (rule wf_seeded)
  show "capacity_ok (seed_initial_data empty_store)" by (rule capacity_seeded)
next
  assume "reachable s"
  then show "wf_store s" "capacity_ok s" by (simp_all add: reachable_invariants)
next
  fix act assume "select_activity_by_name s n = Some act \<and>
      max_participants act \<le> int (length (select_participants_of s (a_id act)))"
  then show "\<exists>d. signup_for_activity s n e = (Inl (HTTPException 400 d), s)"
    by (simp add: signup_for_activity_def Let_def)
qed


text \<open>On \<open>demo_store\<close>: a signup to \<open>Solo\<close>, an unregistration, a second seeding, the
  refused signup to the full \<open>Duo\<close>; and the seeded store as a reachable one.\<close>

theorem capacity_invariant_witness:
  "wf_store demo_store \<and> capacity_ok demo_store \<and>
   wf_store (snd (signup_for_activity demo_store ''Solo'' ''c@mergington.edu'')) \<and>
   capacity_ok (snd (signup_for_activity demo_store ''Solo'' ''c@mergington.edu'')) \<and>
   wf_store (snd (unregister_from_activity demo_store ''Solo'' ''c@mergington.edu'')) \<and>
   capacity_ok (snd (unregister_from_activity demo_store ''Solo'' ''c@mergington.edu'')) \<and>
   wf_store (seed_initial_data demo_store) \<and>
   capacity_ok (seed_initial_data demo_store) \<and>
   reachable (seed_initial_data empty_store) \<and>
   wf_store (seed_initial_data empty_store) \<and>
   capacity_ok (seed_initial_data empty_store) \<and>
   (\<exists>d. signup_for_activity demo_store ''Duo'' ''c@mergington.edu'' =
      (Inl (HTTPException 400 d), demo_store))"
proof -
  have full: "max_participants \<lparr>a_id = 1, name = ''Duo'', description = ''Pair work'',
      schedule = ''Mondays'', max_participants = 2\<rparr>
      \<le> int (length (select_participants_of demo_store 1))"
    by (simp add: select_participants_of_def demo_store_def)
  from capacity_invariant[of demo_store "''Solo''" "''c@mergington.edu''"] demo_wf demo_capacity
  have inv: "wf_store (snd (signup_for_activity demo_store ''Solo'' ''c@mergington.edu'')) \<and>
   capacity_ok (snd (signup_for_activity demo_store ''Solo'' ''c@mergington.edu'')) \<and>
   wf_store (snd (unregister_from_activity demo_store ''Solo'' ''c@mergington.edu'')) \<and>
   capacity_ok (snd (unregister_from_activity demo_store ''Solo'' ''c@mergington.edu'')) \<and>
   wf_store (seed_initial_data demo_store) \<and>
   capacity_ok (seed_initial_data demo_store)"
    by blast
  from capacity_invariant[of demo_store "''Duo''" "''c@mergington.edu''"] demo_duo full
  have refused: "\<exists>d. signup_for_activity demo_store ''Duo'' ''c@mergington.edu'' =
      (Inl (HTTPException 400 d), demo_store)"
    by simp
  have r: "reachable (seed_initial_data empty_store)" by (rule reachable.start)
  with capacity_invariant[of "seed_initial_data empty_store" "''Duo''" "''c@mergington.edu''"]
  have "wf_store (seed_initial_data empty_store) \<and> capacity_ok (seed_initial_data empty_store)"
    by blast
  with inv refused r demo_wf demo_capacity show ?thesis by blast
qed

section \<open>Unique signups\<close>

text \<open>
  Claim C4. No two participant rows share \<open>(activity_id, email)\<close>: signup and unregister
  keep that in every store, seeding keeps it in every store that meets the schema's
  constraints and establishes it on the fresh database, so it holds in every reachable
  store. After a signup \<open>(n, e)\<close> that succeeded, \<open>e\<close> occurs exactly once among the
  emails of the participants of the activity the name resolves to; where activity names
  are distinct, that is the list the listing shows under \<open>n\<close>.
\<close>

theorem unique_signup_invariant:
  "(unique_signups s \<longrightarrow>
      unique_signups (snd (signup_for_activity s n e)) \<and>
      unique_signups (snd (unregister_from_activity s n e))) \<and>
   (wf_store s \<and> unique_signups s \<longrightarrow> unique_signups (seed_initial_data s)) \<and>
   unique_signups (seed_initial_data empty_store) \<and>
   (reachable s \<longrightarrow> unique_signups s) \<and>
   (\<forall>act m s'. select_activity_by_name s n = Some act \<and>
      signup_for_activity s n e = (Inr m, s') \<longrightarrow>
      count_list (map email (select_participants_of s' (a_id act))) e = 1 \<and>
      (distinct (map name (activity_tbl s)) \<longrightarrow>
         (\<exists>i. map_of (get_activities s') n = Some i \<and>
            count_list (info_participants i) e = 1)))"
proof (intro conjI allI impI)
  assume u: "unique_signups s"
  show "unique_signups (snd (signup_for_activity s n e))" using u by (rule unique_signup)
  show "unique_signups (snd (unregister_from_activity s n e))"
    using u by (rule unique_unregister)
next
  assume "wf_store s \<and> unique_signups s"
  then show "unique_signups (seed_initial_data s)" by (simp add: unique_seed)
next
  show "unique_signups (seed_initial_data empty_store)" by (rule unique_seeded)
next
  assume "reachable s"
  then show "unique_signups s" by (simp add: reachable_invariants)
next
  fix act m s'
  assume h: "select_activity_by_name s n = Some act \<and> signup_for_activity s n e = (Inr m, s')"
  then have new: "e \<notin> email ` set (select_participants_of s (a_id act))"
    and s': "s' = add_participant e (a_id act) s"
    by (auto simp: signup_for_activity_def Let_def list_ex_iff split: if_splits)
  from new have "count_list (map email (select_participants_of s (a_id act))) e = 0"
    by (simp add: count_list_0_iff)
  then show once: "count_list (map email (select_participants_of s' (a_id act))) e = 1"
    by (simp add: s' select_participants_of_def add_participant_def)
  {
    assume d: "distinct (map name (activity_tbl s))"
    from h have "select_activity_by_name s' n = Some act"
      by (simp add: s' select_activity_by_name_def)
    moreover from d have "distinct (map name (activity_tbl s'))" by (simp add: s')
    ultimately have "map_of (get_activities s') n = Some (info_of s' act)"
      by (simp add: listing_of_resolved)
    with once show "\<exists>i. map_of (get_activities s') n = Some i \<and>
        count_list (info_participants i) e = 1"
      by (simp add: info_of_def)
  }
qed


text \<open>On \<open>demo_store\<close>, with the signup of a new student to \<open>Solo\<close>.\<close>

theorem unique_signup_invariant_witness:
  "wf_store demo_store \<and> unique_signups demo_store \<and>
   unique_signups (snd (signup_for_activity demo_store ''Solo'' ''c@mergington.edu'')) \<and>
   unique_signups (snd (unregister_from_activity demo_store ''Solo'' ''c@mergington.edu'')) \<and>
   unique_signups (seed_initial_data demo_store) \<and>
   reachable (seed_initial_data empty_store) \<and>
   unique_signups (seed_initial_data empty_store) \<and>
   count_list (map email (select_participants_of
     (snd (signup_for_activity demo_store ''Solo'' ''c@mergington.edu'')) 2))
     ''c@mergington.edu'' = 1 \<and>
   distinct (map name (activity_tbl demo_store)) \<and>
   (\<exists>i. map_of (get_activities
       (snd (signup_for_activity demo_store ''Solo'' ''c@mergington.edu''))) ''Solo'' = Some i \<and>
      count_list (info_participants i) ''c@mergington.edu'' = 1)"
proof -
  note t = unique_signup_invariant[of demo_store "''Solo''" "''c@mergington.edu''"]
  have names: "distinct (map name (activity_tbl demo_store))"
    by (simp add: demo_store_def)
  from t demo_wf demo_unique
  have inv: "unique_signups (snd (signup_for_activity demo_store ''Solo'' ''c@mergington.edu'')) \<and>
   unique_signups (snd (unregister_from_activity demo_store ''Solo'' ''c@mergington.edu'')) \<and>
   unique_signups (seed_initial_data demo_store)"
    by blast
  from t demo_solo demo_signup_solo names
  have once: "count_list (map email (select_participants_of
     (snd (signup_for_activity demo_store ''Solo'' ''c@mergington.edu'')) 2))
     ''c@mergington.edu'' = 1 \<and>
   (\<exists>i. map_of (get_activities
       (snd (signup_for_activity demo_store ''Solo'' ''c@mergington.edu''))) ''Solo'' = Some i \<and>
      count_list (info_participants i) ''c@mergington.edu'' = 1)"
    by simp
  have r: "reachable (seed_initial_data empty_store)" by (rule reachable.start)
  with unique_signup_invariant[of "seed_initial_data empty_store" "''Solo''" "''c@mergington.edu''"]
  have "unique_signups (seed_initial_data empty_store)" by blast
  with inv once r names demo_wf demo_unique show ?thesis by blast
qed

section \<open>Seeding\<close>

text \<open>
  Claim C6. If the activity table holds a row, \<open>seed_initial_data\<close> changes nothing. If
  it holds none, seeding leaves nine activity rows, named as the keys of \<open>initial\<close> in
  their order; on the empty store the result has 9 activity and 18 participant rows,
  and its listing is the dictionary \<open>initial\<close> itself: each activity with its
  description, schedule, capacity and listed participants. Seeding twice gives the store
  that seeding once gives, and the activity names stay distinct.
\<close>

theorem seeding_idempotent:
  "(activity_tbl s \<noteq> [] \<longrightarrow> seed_initial_data s = s) \<and>
   (activity_tbl s = [] \<longrightarrow>
      length (activity_tbl (seed_initial_data s)) = 9 \<and>
      map name (activity_tbl (seed_initial_data s)) = map fst initial) \<and>
   get_activities (seed_initial_data empty_store) = initial \<and>
   length initial = 9 \<and>
   length (activity_tbl (seed_initial_data empty_store)) = 9 \<and>
   length (participant_tbl (seed_initial_data empty_store)) = 18 \<and>
   seed_initial_data (seed_initial_data s) = seed_initial_data s \<and>
   distinct (map name (activity_tbl (seed_initial_data (seed_initial_data empty_store))))"
proof (intro conjI impI)
  assume "activity_tbl s \<noteq> []"
  then show "seed_initial_data s = s" by (rule seed_noop)
next
  assume e: "activity_tbl s = []"
  then show n: "map name (activity_tbl (seed_initial_data s)) = map fst initial"
    by (simp add: seed_initial_data_def seed_loop_names)
  have "length (map name (activity_tbl (seed_initial_data s))) = length (map fst initial)"
    by (simp only: n)
  then show "length (activity_tbl (seed_initial_data s)) = 9"
    by (simp add: initial_def)
next
  show "get_activities (seed_initial_data empty_store) = initial" by (rule get_seeded)
  show "length initial = 9" by (simp add: initial_def)
  show "length (activity_tbl (seed_initial_data empty_store)) = 9"
    by (simp add: seeded_store_eq)
  show "length (participant_tbl (seed_initial_data empty_store)) = 18"
    by (simp add: seeded_store_eq)
  show "seed_initial_data (seed_initial_data s) = seed_initial_data s" by (rule seed_twice)
  show "distinct (map name (activity_tbl (seed_initial_data (seed_initial_data empty_store))))"
    unfolding seed_twice by (simp add: seeded_store_eq)
qed


text \<open>A store with activities (\<open>demo_store\<close>) and the empty one.\<close>

theorem seeding_idempotent_witness:
  "activity_tbl demo_store \<noteq> [] \<and> seed_initial_data demo_store = demo_store \<and>
   activity_tbl empty_store = [] \<and>
   length (activity_tbl (seed_initial_data empty_store)) = 9 \<and>
   map name (activity_tbl (seed_initial_data empty_store)) =
     [''Chess Club'', ''Programming Class'', ''Gym Class'', ''Soccer Team'', ''Basketball Team'',
      ''Art Club'', ''Drama Club'', ''Math Club'', ''Debate Team'']"
proof -
  have ne: "activity_tbl demo_store \<noteq> []" by (simp add: demo_store_def)
  have e: "activity_tbl empty_store = []" by (simp add: empty_store_def)
  from seeding_idempotent[of demo_store] ne
  have a: "seed_initial_data demo_store = demo_store" by blast
  from seeding_idempotent[of empty_store] e
  have "length (activity_tbl (seed_initial_data empty_store)) = 9 \<and>
      map name (activity_tbl (seed_initial_data empty_store)) = map fst initial"
    by blast
  then have "length (activity_tbl (seed_initial_data empty_store)) = 9 \<and>
      map name (activity_tbl (seed_initial_data empty_store)) =
     [''Chess Club'', ''Programming Class'', ''Gym Class'', ''Soccer Team'', ''Basketball Team'',
      ''Art Club'', ''Drama Club'', ''Math Club'', ''Debate Team'']"
    by (simp add: initial_def)
  with ne e a show ?thesis by blast
qed


section \<open>The listing\<close>

text \<open>
  Claim C7. \<open>get_activities\<close> has no raising branch: it is a total function of the
  store. Its answer has one entry for each activity name and no key twice; every entry
  carries the description, schedule and \<open>max_participants\<close> of an activity row of that
  name and the emails of the participant rows that reference that row. Where activity
  names are distinct the answer is, row by row, the activity table in the legacy shape.
  A store without activities gives the empty dictionary.
\<close>

theorem get_activities_total:
  "distinct (map fst (get_activities s)) \<and>
   fst ` set (get_activities s) = name ` set (activity_tbl s) \<and>
   (\<forall>(k, v)\<in>set (get_activities s). \<exists>act\<in>set (activity_tbl s).
      name act = k \<and>
      info_description v = description act \<and>
      info_schedule v = schedule act \<and>
      info_max_participants v = max_participants act \<and>
      info_participants v =
        map email (filter (\<lambda>p. activity_id p = a_id act) (participant_tbl s))) \<and>
   (distinct (map name (activity_tbl s)) \<longrightarrow>
      get_activities s =
        map (\<lambda>act. (name act,
               \<lparr>info_description = description act,
                info_schedule = schedule act,
                info_max_participants = max_participants act,
                info_participants =
                  map email (filter (\<lambda>p. activity_id p = a_id act) (participant_tbl s))\<rparr>))
          (activity_tbl s)) \<and>
   (activity_tbl s = [] \<longrightarrow> get_activities s = []) \<and>
   get_activities empty_store = []"
proof (intro conjI impI)
  show "distinct (map fst (get_activities s))" by (rule get_activities_distinct)
  show "fst ` set (get_activities s) = name ` set (activity_tbl s)"
    by (rule get_activities_keys)
  show "\<forall>(k, v)\<in>set (get_activities s). \<exists>act\<in>set (activity_tbl s).
      name act = k \<and>
      info_description v = description act \<and>
      info_schedule v = schedule act \<and>
      info_max_participants v = max_participants act \<and>
      info_participants v =
        map email (filter (\<lambda>p. activity_id p = a_id act) (participant_tbl s))"
  proof (clarify)
    fix k v assume "(k, v) \<in> set (get_activities s)"
    from get_activities_entry[OF this]
    show "\<exists>act\<in>set (activity_tbl s).
      name act = k \<and>
      info_description v = description act \<and>
      info_schedule v = schedule act \<and>
      info_max_participants v = max_participants act \<and>
      info_participants v =
        map email (filter (\<lambda>p. activity_id p = a_id act) (participant_tbl s))"
      by (auto simp: info_of_def select_participants_of_def)
  qed
  show "get_activities empty_store = []"
    by (simp add: get_activities_def empty_store_def)
next
  assume "distinct (map name (activity_tbl s))"
  then show "get_activities s =
        map (\<lambda>act. (name act,
               \<lparr>info_description = description act,
                info_schedule = schedule act,
                info_max_participants = max_participants act,
                info_participants =
                  map email (filter (\<lambda>p. activity_id p = a_id act) (participant_tbl s))\<rparr>))
          (activity_tbl s)"
    by (simp add: get_activities_distinct_names info_of_def select_participants_of_def)
next
  assume "activity_tbl s = []"
  then show "get_activities s = []" by (simp add: get_activities_def)
qed


text \<open>The listing of \<open>demo_store\<close>, one of its entries traced back to its row, and the
  listing of the empty store.\<close>

theorem get_activities_total_witness:
  "get_activities demo_store =
     [(''Duo'', \<lparr>info_description = ''Pair work'', info_schedule = ''Mondays'',
         info_max_participants = 2,
         info_participants = [''a@mergington.edu'', ''b@mergington.edu'']\<rparr>),
      (''Solo'', \<lparr>info_description = ''Single seat'', info_schedule = ''Tuesdays'',
         info_max_participants = 1, info_participants = []\<rparr>)] \<and>
   (\<exists>act\<in>set (activity_tbl demo_store).
      name act = ''Solo'' \<and> description act = ''Single seat'' \<and> schedule act = ''Tuesdays'' \<and>
      max_participants act = 1 \<and>
      filter (\<lambda>p. activity_id p = a_id act) (participant_tbl demo_store) = []) \<and>
   get_activities empty_store = []"
proof -
  have names: "distinct (map name (activity_tbl demo_store))"
    by (simp add: demo_store_def)
  note t = get_activities_total[of demo_store]
  from t names have g: "get_activities demo_store =
     [(''Duo'', \<lparr>info_description = ''Pair work'', info_schedule = ''Mondays'',
         info_max_participants = 2,
         info_participants = [''a@mergington.edu'', ''b@mergington.edu'']\<rparr>),
      (''Solo'', \<lparr>info_description = ''Single seat'', info_schedule = ''Tuesdays'',
         info_max_participants = 1, info_participants = []\<rparr>)]"
    by (simp add: demo_store_def)
  then have "(''Solo'', \<lparr>info_description = ''Single seat'', info_schedule = ''Tuesdays'',
         info_max_participants = 1, info_participants = []\<rparr>) \<in> set (get_activities demo_store)"
    by simp
  with t have "\<exists>act\<in>set (activity_tbl demo_store).
      name act = ''Solo'' \<and> description act = ''Single seat'' \<and> schedule act = ''Tuesdays'' \<and>
      max_participants act = 1 \<and>
      filter (\<lambda>p. activity_id p = a_id act) (participant_tbl demo_store) = []"
    by fastforce
  moreover from get_activities_total[of empty_store] have "get_activities empty_store = []"
    by blast
  ultimately show ?thesis using g by blast
qed


section \<open>The frame of signup and unregister\<close>

text \<open>
  Claim C8. Signup and unregister leave the activity table as it is. With \<open>act\<close> the
  row the name resolves to, the participant rows of every other activity id are the
  same afterwards, and the store is either unchanged or differs by one participant row
  of \<open>act\<close> with the request's email: appended by signup, removed by unregister (for
  unregister where the participant table's primary keys are distinct, which the
  deletion by key relies on). A name no activity has changes nothing at all.
\<close>

theorem frame_condition:
  "activity_tbl (snd (signup_for_activity s n e)) = activity_tbl s \<and>
   activity_tbl (snd (unregister_from_activity s n e)) = activity_tbl s \<and>
   ((\<forall>a\<in>set (activity_tbl s). name a \<noteq> n) \<longrightarrow>
      snd (signup_for_activity s n e) = s \<and> snd (unregister_from_activity s n e) = s) \<and>
   (\<forall>act. select_activity_by_name s n = Some act \<longrightarrow>
      (\<forall>aid. aid \<noteq> a_id act \<longrightarrow>
         select_participants_of (snd (signup_for_activity s n e)) aid =
           select_participants_of s aid) \<and>
      (snd (signup_for_activity s n e) = s \<or>
       (\<exists>pid. participant_tbl (snd (signup_for_activity s n e)) =
          participant_tbl s @ [\<lparr>p_id = pid, email = e, activity_id = a_id act\<rparr>])) \<and>
      (distinct (map p_id (participant_tbl s)) \<longrightarrow>
         (\<forall>aid. aid \<noteq> a_id act \<longrightarrow>
            select_participants_of (snd (unregister_from_activity s n e)) aid =
              select_participants_of s aid) \<and>
         (snd (unregister_from_activity s n e) = s \<or>
          (\<exists>p\<in>set (participant_tbl s). activity_id p = a_id act \<and> email p = e \<and>
             participant_tbl (snd (unregister_from_activity s n e)) =
               remove1 p (participant_tbl s)))))"
proof (intro conjI allI impI)
  show "activity_tbl (snd (signup_for_activity s n e)) = activity_tbl s"
    by (simp add: signup_for_activity_def Let_def split: option.splits)
next
  show "activity_tbl (snd (unregister_from_activity s n e)) = activity_tbl s"
    by (simp add: unregister_from_activity_def delete_participant_def split: option.splits)
next
  assume "\<forall>a\<in>set (activity_tbl s). name a \<noteq> n"
  then have "select_activity_by_name s n = None" by (simp add: select_activity_None)
  then show "snd (signup_for_activity s n e) = s" "snd (unregister_from_activity s n e) = s"
    by (simp_all add: not_found_outcome)
next
  fix act aid assume "select_activity_by_name s n = Some act" and ne: "aid \<noteq> a_id act"
  from signup_outcome[OF this(1), of e] ne
  show "select_participants_of (snd (signup_for_activity s n e)) aid =
      select_participants_of s aid"
    by (auto simp: select_participants_of_def add_participant_def)
next
  fix act assume "select_activity_by_name s n = Some act"
  from signup_outcome[OF this, of e]
  show "snd (signup_for_activity s n e) = s \<or>
      (\<exists>pid. participant_tbl (snd (signup_for_activity s n e)) =
         participant_tbl s @ [\<lparr>p_id = pid, email = e, activity_id = a_id act\<rparr>])"
    by (auto simp: add_participant_def)
next
  fix act aid assume act: "select_activity_by_name s n = Some act"
    and pk: "distinct (map p_id (participant_tbl s))" and ne: "aid \<noteq> a_id act"
  from unregister_outcome[OF act, of e]
  show "select_participants_of (snd (unregister_from_activity s n e)) aid =
      select_participants_of s aid"
  proof
    assume "snd (unregister_from_activity s n e) = s"
    then show ?thesis by simp
  next
    assume "\<exists>p\<in>set (participant_tbl s). activity_id p = a_id act \<and> email p = e \<and>
        snd (unregister_from_activity s n e) = delete_participant p s"
    then obtain p where p: "p \<in> set (participant_tbl s)" "activity_id p = a_id act"
      and r: "snd (unregister_from_activity s n e) = delete_participant p s"
      by blast
    have "\<And>q. q \<in> set (participant_tbl s) \<Longrightarrow> activity_id q = aid \<Longrightarrow> p_id q \<noteq> p_id p"
      using pk p ne pk_inj[of p_id "participant_tbl s"] by metis
    then have "filter (\<lambda>q. activity_id q = aid) (filter (\<lambda>q. p_id q \<noteq> p_id p) (participant_tbl s))
        = filter (\<lambda>q. activity_id q = aid) (participant_tbl s)"
      by (auto intro: filter_cong)
    then show ?thesis
      unfolding r select_participants_of_def delete_participant_def by simp
  qed
next
  fix act assume act: "select_activity_by_name s n = Some act"
    and pk: "distinct (map p_id (participant_tbl s))"
  from unregister_outcome[OF act, of e] pk
  show "snd (unregister_from_activity s n e) = s \<or>
      (\<exists>p\<in>set (participant_tbl s). activity_id p = a_id act \<and> email p = e \<and>
         participant_tbl (snd (unregister_from_activity s n e)) = remove1 p (participant_tbl s))"
    by (auto simp: delete_participant_def filter_pk_remove1)
qed


text \<open>On \<open>demo_store\<close>: a signup to \<open>Solo\<close>, an unregistration from \<open>Duo\<close>, and both
  requests for a name that does not exist.\<close>

theorem frame_condition_witness:
  "activity_tbl (snd (signup_for_activity demo_store ''Solo'' ''c@mergington.edu'')) =
     activity_tbl demo_store \<and>
   activity_tbl (snd (unregister_from_activity demo_store ''Duo'' ''a@mergington.edu'')) =
     activity_tbl demo_store \<and>
   snd (signup_for_activity demo_store ''Trio'' ''c@mergington.edu'') = demo_store \<and>
   snd (unregister_from_activity demo_store ''Trio'' ''c@mergington.edu'') = demo_store \<and>
   select_participants_of (snd (signup_for_activity demo_store ''Solo'' ''c@mergington.edu'')) 1 =
     select_participants_of demo_store 1 \<and>
   (\<exists>pid. participant_tbl (snd (signup_for_activity demo_store ''Solo'' ''c@mergington.edu'')) =
      participant_tbl demo_store @
        [\<lparr>p_id = pid, email = ''c@mergington.edu'', activity_id = 2\<rparr>]) \<and>
   select_participants_of (snd (unregister_from_activity demo_store ''Duo'' ''a@mergington.edu'')) 2 =
     select_participants_of demo_store 2 \<and>
   (\<exists>p\<in>set (participant_tbl demo_store). activity_id p = 1 \<and> email p = ''a@mergington.edu'' \<and>
      participant_tbl (snd (unregister_from_activity demo_store ''Duo'' ''a@mergington.edu'')) =
        remove1 p (participant_tbl demo_store))"
proof -
  have pk: "distinct (map p_id (participant_tbl demo_store))"
    by (simp add: demo_store_def)
  have "participant_tbl (snd (signup_for_activity demo_store ''Solo'' ''c@mergington.edu'')) \<noteq>
      participant_tbl demo_store"
    by (simp add: demo_signup_solo)
  then have changed:
    "snd (signup_for_activity demo_store ''Solo'' ''c@mergington.edu'') \<noteq> demo_store"
    by metis
  have "length (participant_tbl
      (snd (unregister_from_activity demo_store ''Duo'' ''a@mergington.edu''))) = 1"
    by (simp add: unregister_from_activity_def select_activity_by_name_def
        select_participant_def delete_participant_def demo_store_def)
  moreover have "length (participant_tbl demo_store) = 2"
    by (simp add: demo_store_def)
  ultimately have removed:
    "snd (unregister_from_activity demo_store ''Duo'' ''a@mergington.edu'') \<noteq> demo_store"
    by auto
  note solo = frame_condition[of demo_store "''Solo''" "''c@mergington.edu''"]
  note duo = frame_condition[of demo_store "''Duo''" "''a@mergington.edu''"]
  note trio = frame_condition[of demo_store "''Trio''" "''c@mergington.edu''"]
  from solo have a1: "activity_tbl (snd (signup_for_activity demo_store ''Solo'' ''c@mergington.edu'')) =
     activity_tbl demo_store" by blast
  from duo have a2: "activity_tbl (snd (unregister_from_activity demo_store ''Duo'' ''a@mergington.edu'')) =
     activity_tbl demo_store" by blast
  from trio demo_trio have a3: "snd (signup_for_activity demo_store ''Trio'' ''c@mergington.edu'') = demo_store"
    and a4: "snd (unregister_from_activity demo_store ''Trio'' ''c@mergington.edu'') = demo_store"
    by blast+
  from solo demo_solo have a5:
    "select_participants_of (snd (signup_for_activity demo_store ''Solo'' ''c@mergington.edu'')) 1 =
     select_participants_of demo_store 1"
    by simp
  from solo demo_solo changed have a6:
    "\<exists>pid. participant_tbl (snd (signup_for_activity demo_store ''Solo'' ''c@mergington.edu'')) =
      participant_tbl demo_store @
        [\<lparr>p_id = pid, email = ''c@mergington.edu'', activity_id = 2\<rparr>]"
    by simp
  from duo demo_duo pk have a7:
    "select_participants_of (snd (unregister_from_activity demo_store ''Duo'' ''a@mergington.edu'')) 2 =
     select_participants_of demo_store 2"
    by simp
  from duo demo_duo pk removed have a8:
    "\<exists>p\<in>set (participant_tbl demo_store). activity_id p = 1 \<and> email p = ''a@mergington.edu'' \<and>
      participant_tbl (snd (unregister_from_activity demo_store ''Duo'' ''a@mergington.edu'')) =
        remove1 p (participant_tbl demo_store)"
    by simp
  from a1 a2 a3 a4 a5 a6 a7 a8 show ?thesis by blast
qed


section \<open>The Chess Club example\<close>

text \<open>
  Claim C9. On the store that seeding the empty database gives, the listing shows two
  participants for Chess Club; the signup of \<open>test@mergington.edu\<close> succeeds, after
  which it shows three (the new one last); the same signup again answers 400 "Student is
  already signed up" and leaves the store as it is.
\<close>

theorem chess_club_example:
  "map_option (\<lambda>i. length (info_participants i))
     (map_of (get_activities (seed_initial_data empty_store)) ''Chess Club'') = Some 2 \<and>
   fst (signup_for_activity (seed_initial_data empty_store) ''Chess Club'' ''test@mergington.edu'')
     = Inr ''Signed up test@mergington.edu for Chess Club'' \<and>
   map_option info_participants
     (map_of (get_activities (snd (signup_for_activity (seed_initial_data empty_store)
        ''Chess Club'' ''test@mergington.edu''))) ''Chess Club'')
     = Some [''michael@mergington.edu'', ''daniel@mergington.edu'', ''test@mergington.edu''] \<and>
   signup_for_activity
     (snd (signup_for_activity (seed_initial_data empty_store)
        ''Chess Club'' ''test@mergington.edu''))
     ''Chess Club'' ''test@mergington.edu''
     = (Inl (HTTPException 400 ''Student is already signed up''),
        snd (signup_for_activity (seed_initial_data empty_store)
          ''Chess Club'' ''test@mergington.edu''))"
proof -
  let ?s0 = "seed_initial_data empty_store"
  have chess: "select_activity_by_name ?s0 ''Chess Club'' =
      Some \<lparr>a_id = 1, name = ''Chess Club'',
        description = ''Learn strategies and compete in chess tournaments'',
        schedule = ''Fridays, 3:30 PM - 5:00 PM'', max_participants = 12\<rparr>"
    by (simp add: seeded_store_eq select_activity_by_name_def)
  have cur: "map email (select_participants_of ?s0 1) =
      [''michael@mergington.edu'', ''daniel@mergington.edu'']"
    by (simp add: seeded_store_eq select_participants_of_def)
  have before: "map_option (\<lambda>i. length (info_participants i))
     (map_of (get_activities ?s0) ''Chess Club'') = Some 2"
    by (simp add: get_seeded initial_def)
  have len: "length (select_participants_of ?s0 1) = 2"
    using arg_cong[OF cur, of length] by simp
  have notin: "''test@mergington.edu'' \<notin> email ` set (select_participants_of ?s0 1)"
    using arg_cong[OF cur, of set] by simp
  have first: "signup_for_activity ?s0 ''Chess Club'' ''test@mergington.edu'' =
      (Inr ''Signed up test@mergington.edu for Chess Club'',
       add_participant ''test@mergington.edu'' 1 ?s0)"
    using notin len by (simp add: signup_resolved[OF chess])
  let ?s1 = "add_participant ''test@mergington.edu'' 1 ?s0"
  have chess1: "select_activity_by_name ?s1 ''Chess Club'' =
      Some \<lparr>a_id = 1, name = ''Chess Club'',
        description = ''Learn strategies and compete in chess tournaments'',
        schedule = ''Fridays, 3:30 PM - 5:00 PM'', max_participants = 12\<rparr>"
    using chess by (simp add: select_activity_by_name_def)
  have cur1: "map email (select_participants_of ?s1 1) =
      [''michael@mergington.edu'', ''daniel@mergington.edu'', ''test@mergington.edu'']"
    using cur by (simp add: select_participants_of_def add_participant_def)
  have "find (\<lambda>a. name a = ''Chess Club'') (rev (activity_tbl ?s1)) =
      Some \<lparr>a_id = 1, name = ''Chess Club'',
        description = ''Learn strategies and compete in chess tournaments'',
        schedule = ''Fridays, 3:30 PM - 5:00 PM'', max_participants = 12\<rparr>"
    by (simp add: seeded_store_eq)
  then have after: "map_option info_participants (map_of (get_activities ?s1) ''Chess Club'') =
      Some [''michael@mergington.edu'', ''daniel@mergington.edu'', ''test@mergington.edu'']"
    using cur1 by (simp add: get_activities_lookup info_of_def)
  have again: "signup_for_activity ?s1 ''Chess Club'' ''test@mergington.edu'' =
      (Inl (HTTPException 400 ''Student is already signed up''), ?s1)"
    using arg_cong[OF cur1, of set] by (simp add: signup_resolved[OF chess1])
  from before first after again show ?thesis by simp
qed


section \<open>Activity names that are not unique\<close>

text \<open>
  Claim C10. \<open>twin_store\<close> meets the schema's constraints although two of its rows
  share a name. In any store, let \<open>a1\<close> be the first activity row named \<open>n\<close> and \<open>aL\<close>
  the last one. Signup and unregister resolve \<open>n\<close> to \<open>a1\<close>. A signup is refused with
  400 if \<open>e\<close> is among the participants of \<open>a_id a1\<close> or if their number has reached
  \<open>max_participants a1\<close>, whatever the other rows of that name hold; otherwise the
  participant table afterwards is the old one with one row \<open>(a_id a1, e)\<close> appended
  under a new key. An unregistration is refused with 400 if no participant row has
  \<open>(a_id a1, e)\<close>; otherwise such a row is deleted by its key, and with distinct
  primary keys the table afterwards is the old one without that row. The participant
  rows of every other activity id stay as they are (for unregister, given distinct
  primary keys). The listing has exactly one entry under \<open>n\<close>, and it carries the data
  and the participants of \<open>aL\<close>.
\<close>

theorem duplicate_names_resolve_first:
  "(activity_tbl s = pre @ a1 # rest \<and> (\<forall>a\<in>set pre. name a \<noteq> n) \<and> name a1 = n \<and>
    activity_tbl s = front @ aL # post \<and> (\<forall>a\<in>set post. name a \<noteq> n) \<and> name aL = n \<longrightarrow>
      select_activity_by_name s n = Some a1 \<and>
      (e \<in> email ` set (select_participants_of s (a_id a1)) \<longrightarrow>
         signup_for_activity s n e =
           (Inl (HTTPException 400 ''Student is already signed up''), s)) \<and>
      (e \<notin> email ` set (select_participants_of s (a_id a1)) \<and>
       max_participants a1 \<le> int (length (select_participants_of s (a_id a1))) \<longrightarrow>
         signup_for_activity s n e = (Inl (HTTPException 400 ''Activity is full''), s)) \<and>
      (e \<notin> email ` set (select_participants_of s (a_id a1)) \<and>
       int (length (select_participants_of s (a_id a1))) < max_participants a1 \<longrightarrow>
         (\<exists>pid. pid \<notin> p_id ` set (participant_tbl s) \<and>
            signup_for_activity s n e =
              (Inr (''Signed up '' @ e @ '' for '' @ n),
               s\<lparr>participant_tbl := participant_tbl s @
                    [\<lparr>p_id = pid, email = e, activity_id = a_id a1\<rparr>]\<rparr>))) \<and>
      ((\<forall>p\<in>set (participant_tbl s). \<not> (activity_id p = a_id a1 \<and> email p = e)) \<longrightarrow>
         unregister_from_activity s n e =
           (Inl (HTTPException 400 ''Student is not signed up for this activity''), s)) \<and>
      ((\<exists>p\<in>set (participant_tbl s). activity_id p = a_id a1 \<and> email p = e) \<longrightarrow>
         (\<exists>p\<in>set (participant_tbl s). activity_id p = a_id a1 \<and> email p = e \<and>
            unregister_from_activity s n e =
              (Inr (''Unregistered '' @ e @ '' from '' @ n),
               s\<lparr>participant_tbl := filter (\<lambda>q. p_id q \<noteq> p_id p) (participant_tbl s)\<rparr>) \<and>
            (distinct (map p_id (participant_tbl s)) \<longrightarrow>
               participant_tbl (snd (unregister_from_activity s n e)) =
                 remove1 p (participant_tbl s)))) \<and>
      (\<forall>aid. aid \<noteq> a_id a1 \<longrightarrow>
         select_participants_of (snd (signup_for_activity s n e)) aid =
           select_participants_of s aid) \<and>
      (distinct (map p_id (participant_tbl s)) \<longrightarrow>
         (\<forall>aid. aid \<noteq> a_id a1 \<longrightarrow>
            select_participants_of (snd (unregister_from_activity s n e)) aid =
              select_participants_of s aid)) \<and>
      length (filter (\<lambda>kv. fst kv = n) (get_activities s)) = 1 \<and>
      map_of (get_activities s) n =
        Some \<lparr>info_description = description aL,
              info_schedule = schedule aL,
              info_max_participants = max_participants aL,
              info_participants =
                map email (filter (\<lambda>p. activity_id p = a_id aL) (participant_tbl s))\<rparr>) \<and>
   wf_store twin_store \<and> \<not> distinct (map name (activity_tbl twin_store))"
proof (intro conjI impI)
  assume h: "activity_tbl s = pre @ a1 # rest \<and> (\<forall>a\<in>set pre. name a \<noteq> n) \<and> name a1 = n \<and>
    activity_tbl s = front @ aL # post \<and> (\<forall>a\<in>set post. name a \<noteq> n) \<and> name aL = n"
  then show first: "select_activity_by_name s n = Some a1"
    by (simp add: select_activity_by_name_def find_first_match)
  from first show "\<forall>aid. aid \<noteq> a_id a1 \<longrightarrow>
         select_participants_of (snd (signup_for_activity s n e)) aid =
           select_participants_of s aid"
    by (simp add: other_participants_signup)
  from h have "n \<in> fst ` set (get_activities s)"
    by (simp add: get_activities_keys image_iff)
  then show "length (filter (\<lambda>kv. fst kv = n) (get_activities s)) = 1"
    by (simp add: single_entry get_activities_distinct)
  from h have "find (\<lambda>a. name a = n) (rev post @ aL # rev front) = Some aL"
    by (simp add: find_first_match)
  moreover from h have "activity_tbl s = front @ aL # post" by blast
  then have "rev (activity_tbl s) = rev post @ aL # rev front" by simp
  ultimately have "map_of (get_activities s) n = Some (info_of s aL)"
    by (simp add: get_activities_lookup)
  then show "map_of (get_activities s) n =
        Some \<lparr>info_description = description aL,
              info_schedule = schedule aL,
              info_max_participants = max_participants aL,
              info_participants =
                map email (filter (\<lambda>p. activity_id p = a_id aL) (participant_tbl s))\<rparr>"
    by (simp add: info_of_def select_participants_of_def)
  {
    assume "e \<in> email ` set (select_participants_of s (a_id a1))"
    with first show "signup_for_activity s n e =
        (Inl (HTTPException 400 ''Student is already signed up''), s)"
      by (simp add: signup_resolved)
  }
  {
    assume "e \<notin> email ` set (select_participants_of s (a_id a1)) \<and>
       max_participants a1 \<le> int (length (select_participants_of s (a_id a1)))"
    with first show "signup_for_activity s n e =
        (Inl (HTTPException 400 ''Activity is full''), s)"
      by (simp add: signup_resolved)
  }
  {
    assume free: "e \<notin> email ` set (select_participants_of s (a_id a1)) \<and>
       int (length (select_participants_of s (a_id a1))) < max_participants a1"
    let ?pid = "next_id (map p_id (participant_tbl s))"
    have "?pid \<notin> p_id ` set (participant_tbl s)"
      using next_id_notin[of "map p_id (participant_tbl s)"] by simp
    moreover from first free have "signup_for_activity s n e =
        (Inr (''Signed up '' @ e @ '' for '' @ n),
         s\<lparr>participant_tbl := participant_tbl s @
              [\<lparr>p_id = ?pid, email = e, activity_id = a_id a1\<rparr>]\<rparr>)"
      by (simp add: signup_resolved add_participant_def)
    ultimately show "\<exists>pid. pid \<notin> p_id ` set (participant_tbl s) \<and>
        signup_for_activity s n e =
          (Inr (''Signed up '' @ e @ '' for '' @ n),
           s\<lparr>participant_tbl := participant_tbl s @
                [\<lparr>p_id = pid, email = e, activity_id = a_id a1\<rparr>]\<rparr>)"
      by blast
  }
  {
    assume "\<forall>p\<in>set (participant_tbl s). \<not> (activity_id p = a_id a1 \<and> email p = e)"
    then have "select_participant s (a_id a1) e = None"
      by (simp add: select_participant_None)
    with first show "unregister_from_activity s n e =
        (Inl (HTTPException 400 ''Student is not signed up for this activity''), s)"
      by (simp add: unregister_resolved)
  }
  {
    assume "\<exists>p\<in>set (participant_tbl s). activity_id p = a_id a1 \<and> email p = e"
    then have "select_participant s (a_id a1) e \<noteq> None"
      by (simp add: select_participant_None)
    then obtain p where p: "select_participant s (a_id a1) e = Some p" by blast
    note m = select_participant_SomeD[OF p]
    from first p have r: "unregister_from_activity s n e =
        (Inr (''Unregistered '' @ e @ '' from '' @ n),
         s\<lparr>participant_tbl := filter (\<lambda>q. p_id q \<noteq> p_id p) (participant_tbl s)\<rparr>)"
      by (simp add: unregister_resolved delete_participant_def)
    have "distinct (map p_id (participant_tbl s)) \<longrightarrow>
        participant_tbl (snd (unregister_from_activity s n e)) = remove1 p (participant_tbl s)"
      using m by (simp add: r filter_pk_remove1)
    with m r show "\<exists>p\<in>set (participant_tbl s). activity_id p = a_id a1 \<and> email p = e \<and>
        unregister_from_activity s n e =
          (Inr (''Unregistered '' @ e @ '' from '' @ n),
           s\<lparr>participant_tbl := filter (\<lambda>q. p_id q \<noteq> p_id p) (participant_tbl s)\<rparr>) \<and>
        (distinct (map p_id (participant_tbl s)) \<longrightarrow>
           participant_tbl (snd (unregister_from_activity s n e)) =
             remove1 p (participant_tbl s))"
      by blast
  }
  {
    assume pk: "distinct (map p_id (participant_tbl s))"
    from first pk show "\<forall>aid. aid \<noteq> a_id a1 \<longrightarrow>
            select_participants_of (snd (unregister_from_activity s n e)) aid =
              select_participants_of s aid"
      by (simp add: other_participants_unregister)
  }
next
  show "wf_store twin_store" by (simp add: wf_store_def twin_store_def)
  show "\<not> distinct (map name (activity_tbl twin_store))" by (simp add: twin_store_def)
qed

text \<open>
  On \<open>twin_store\<close>, where \<open>y@mergington.edu\<close> is enrolled in the first Chess Club row and
  \<open>x@mergington.edu\<close> in the second: the signup of \<open>x\<close> is accepted and appends a row
  for activity 1; the signup of \<open>y\<close> is refused; the unregistration of \<open>x\<close> is refused;
  the unregistration of \<open>y\<close> leaves only the row of \<open>x\<close>; the participants of activity 2
  are never touched, and the listing shows the second row.
\<close>

theorem duplicate_names_resolve_first_witness:
  "select_activity_by_name twin_store ''Chess Club'' =
     Some \<lparr>a_id = 1, name = ''Chess Club'', description = ''Morning group'',
           schedule = ''Mondays'', max_participants = 2\<rparr> \<and>
   (\<exists>pid. pid \<notin> {1, 2} \<and>
      signup_for_activity twin_store ''Chess Club'' ''x@mergington.edu'' =
        (Inr ''Signed up x@mergington.edu for Chess Club'',
         twin_store\<lparr>participant_tbl :=
           [\<lparr>p_id = 1, email = ''y@mergington.edu'', activity_id = 1\<rparr>,
            \<lparr>p_id = 2, email = ''x@mergington.edu'', activity_id = 2\<rparr>,
            \<lparr>p_id = pid, email = ''x@mergington.edu'', activity_id = 1\<rparr>]\<rparr>)) \<and>
   signup_for_activity twin_store ''Chess Club'' ''y@mergington.edu'' =
     (Inl (HTTPException 400 ''Student is already signed up''), twin_store) \<and>
   unregister_from_activity twin_store ''Chess Club'' ''x@mergington.edu'' =
     (Inl (HTTPException 400 ''Student is not signed up for this activity''), twin_store) \<and>
   fst (unregister_from_activity twin_store ''Chess Club'' ''y@mergington.edu'') =
     Inr ''Unregistered y@mergington.edu from Chess Club'' \<and>
   participant_tbl (snd (unregister_from_activity twin_store ''Chess Club'' ''y@mergington.edu'')) =
     [\<lparr>p_id = 2, email = ''x@mergington.edu'', activity_id = 2\<rparr>] \<and>
   select_participants_of
     (snd (signup_for_activity twin_store ''Chess Club'' ''x@mergington.edu'')) 2 =
     select_participants_of twin_store 2 \<and>
   select_participants_of
     (snd (unregister_from_activity twin_store ''Chess Club'' ''y@mergington.edu'')) 2 =
     select_participants_of twin_store 2 \<and>
   length (filter (\<lambda>kv. fst kv = ''Chess Club'') (get_activities twin_store)) = 1 \<and>
   map_of (get_activities twin_store) ''Chess Club'' =
     Some \<lparr>info_description = ''Evening group'', info_schedule = ''Fridays'',
           info_max_participants = 5, info_participants = [''x@mergington.edu'']\<rparr>"
proof -
  let ?a1 = "\<lparr>a_id = 1, name = ''Chess Club'', description = ''Morning group'',
           schedule = ''Mondays'', max_participants = 2\<rparr>"
  let ?a2 = "\<lparr>a_id = 2, name = ''Chess Club'', description = ''Evening group'',
          schedule = ''Fridays'', max_participants = 5\<rparr>"
  let ?py = "\<lparr>p_id = 1, email = ''y@mergington.edu'', activity_id = 1\<rparr>"
  let ?px = "\<lparr>p_id = 2, email = ''x@mergington.edu'', activity_id = 2\<rparr>"
  have h: "activity_tbl twin_store = [] @ ?a1 # [?a2] \<and>
      (\<forall>a\<in>set []. name a \<noteq> ''Chess Club'') \<and> name ?a1 = ''Chess Club'' \<and>
      activity_tbl twin_store = [?a1] @ ?a2 # [] \<and>
      (\<forall>a\<in>set []. name a \<noteq> ''Chess Club'') \<and> name ?a2 = ''Chess Club''"
    by (simp add: twin_store_def)
  have tbl: "participant_tbl twin_store = [?py, ?px]"
    by (simp add: twin_store_def)
  have pk: "distinct (map p_id (participant_tbl twin_store))"
    by (simp add: tbl)
  have p1: "select_participants_of twin_store 1 = [?py]"
    by (simp add: select_participants_of_def tbl)
  have ne: "(2::int) \<noteq> a_id ?a1" by simp
  have x_absent: "\<forall>p\<in>set (participant_tbl twin_store).
      \<not> (activity_id p = a_id ?a1 \<and> email p = ''x@mergington.edu'')"
    by (simp add: tbl)
  have y_present: "\<exists>p\<in>set (participant_tbl twin_store).
      activity_id p = a_id ?a1 \<and> email p = ''y@mergington.edu''"
    by (simp add: tbl)
  note tx = duplicate_names_resolve_first[of twin_store "[]" ?a1 "[?a2]" "''Chess Club''"
      "[?a1]" ?a2 "[]" "''x@mergington.edu''"]
  note ty = duplicate_names_resolve_first[of twin_store "[]" ?a1 "[?a2]" "''Chess Club''"
      "[?a1]" ?a2 "[]" "''y@mergington.edu''"]
  from tx h have c1: "select_activity_by_name twin_store ''Chess Club'' = Some ?a1"
    by blast
  have x_new: "''x@mergington.edu'' \<notin> email ` set (select_participants_of twin_store (a_id ?a1)) \<and>
      int (length (select_participants_of twin_store (a_id ?a1))) < max_participants ?a1"
    by (simp add: p1)
  from tx h x_new have "\<exists>pid. pid \<notin> p_id ` set (participant_tbl twin_store) \<and>
      signup_for_activity twin_store ''Chess Club'' ''x@mergington.edu'' =
        (Inr (''Signed up '' @ ''x@mergington.edu'' @ '' for '' @ ''Chess Club''),
         twin_store\<lparr>participant_tbl := participant_tbl twin_store @
           [\<lparr>p_id = pid, email = ''x@mergington.edu'', activity_id = a_id ?a1\<rparr>]\<rparr>)"
    by blast
  then have c2: "\<exists>pid. pid \<notin> {1, 2} \<and>
      signup_for_activity twin_store ''Chess Club'' ''x@mergington.edu'' =
        (Inr ''Signed up x@mergington.edu for Chess Club'',
         twin_store\<lparr>participant_tbl :=
           [?py, ?px, \<lparr>p_id = pid, email = ''x@mergington.edu'', activity_id = 1\<rparr>]\<rparr>)"
    by (simp add: tbl)
  have y_in: "''y@mergington.edu'' \<in> email ` set (select_participants_of twin_store (a_id ?a1))"
    by (simp add: p1)
  from ty h y_in have c3: "signup_for_activity twin_store ''Chess Club'' ''y@mergington.edu'' =
     (Inl (HTTPException 400 ''Student is already signed up''), twin_store)"
    by blast
  from tx h x_absent
  have c4: "unregister_from_activity twin_store ''Chess Club'' ''x@mergington.edu'' =
     (Inl (HTTPException 400 ''Student is not signed up for this activity''), twin_store)"
    by blast
  from ty h y_present
  have "\<exists>p\<in>set (participant_tbl twin_store).
      activity_id p = a_id ?a1 \<and> email p = ''y@mergington.edu'' \<and>
      unregister_from_activity twin_store ''Chess Club'' ''y@mergington.edu'' =
        (Inr (''Unregistered '' @ ''y@mergington.edu'' @ '' from '' @ ''Chess Club''),
         twin_store\<lparr>participant_tbl :=
           filter (\<lambda>q. p_id q \<noteq> p_id p) (participant_tbl twin_store)\<rparr>) \<and>
      (distinct (map p_id (participant_tbl twin_store)) \<longrightarrow>
         participant_tbl (snd (unregister_from_activity twin_store ''Chess Club''
           ''y@mergington.edu'')) = remove1 p (participant_tbl twin_store))"
    by blast
  with pk have c5: "fst (unregister_from_activity twin_store ''Chess Club'' ''y@mergington.edu'') =
     Inr ''Unregistered y@mergington.edu from Chess Club'' \<and>
   participant_tbl (snd (unregister_from_activity twin_store ''Chess Club'' ''y@mergington.edu'')) =
     [?px]"
    by (auto simp: tbl)
  from tx h ne have c6: "select_participants_of
     (snd (signup_for_activity twin_store ''Chess Club'' ''x@mergington.edu'')) 2 =
     select_participants_of twin_store 2"
    by blast
  from ty h ne pk have c7: "select_participants_of
     (snd (unregister_from_activity twin_store ''Chess Club'' ''y@mergington.edu'')) 2 =
     select_participants_of twin_store 2"
    by blast
  from tx h have c8:
    "length (filter (\<lambda>kv. fst kv = ''Chess Club'') (get_activities twin_store)) = 1"
    by blast
  from tx h have "map_of (get_activities twin_store) ''Chess Club'' =
        Some \<lparr>info_description = description ?a2,
              info_schedule = schedule ?a2,
              info_max_participants = max_participants ?a2,
              info_participants =
                map email (filter (\<lambda>p. activity_id p = a_id ?a2) (participant_tbl twin_store))\<rparr>"
    by blast
  then have c9: "map_of (get_activities twin_store) ''Chess Club'' =
     Some \<lparr>info_description = ''Evening group'', info_schedule = ''Fridays'',
           info_max_participants = 5, info_participants = [''x@mergington.edu'']\<rparr>"
    by (simp add: tbl)
  from c1 c2 c3 c4 c5 c6 c7 c8 c9 show ?thesis by blast
qed

end
